theory Spec2Isabelle
  imports Complex_Main "HOL-Library.Sublist"
begin

section \<open>Python values, as the lead dictionaries hold them\<close>

text \<open>
  A lead is a Python \<open>Dict[str, Any]\<close>. The values the program stores, and the scalars a
  persisted JSON document can hold, are \<open>None\<close>, booleans, floats and strings.
  A finite float is modelled by the real number it denotes (\<open>0.0\<close> and \<open>-0.0\<close> are both
  \<open>Fin 0\<close>); the three non-finite floats are separate constructors. A Python \<open>int\<close> is
  represented by the float that \<open>float()\<close> turns it into.

  Text is a \<open>string\<close>, one \<open>char\<close> per character (code points below 256).
\<close>

datatype pyfloat = Fin real | PInf | NInf | NaN

datatype pyval = PNone | PBool bool | PNum pyfloat | PStr string

datatype pyerr = ValueError | TypeError | AttributeError | FileNotFoundError | OSError

type_synonym pydict = "string \<rightharpoonup> pyval"

type_synonym lead = pydict

text \<open>Python truthiness (\<open>bool(x)\<close>), the test behind \<open>x or y\<close> and \<open>if x\<close>.\<close>

fun truthy :: "pyval \<Rightarrow> bool" where
  "truthy PNone = False"
| "truthy (PBool b) = b"
| "truthy (PNum x) = (x \<noteq> Fin 0)"
| "truthy (PStr s) = (s \<noteq> [])"

definition py_or :: "pyval \<Rightarrow> pyval \<Rightarrow> pyval" where
  "py_or a b = (if truthy a then a else b)"

text \<open>\<open>d.get(k)\<close> and \<open>d.get(k, default)\<close>.\<close>

definition dget :: "pydict \<Rightarrow> string \<Rightarrow> pyval" where
  "dget d k = (case d k of None \<Rightarrow> PNone | Some v \<Rightarrow> v)"

definition dget_or :: "pydict \<Rightarrow> string \<Rightarrow> pyval \<Rightarrow> pyval" where
  "dget_or d k dflt = (case d k of None \<Rightarrow> dflt | Some v \<Rightarrow> v)"

text \<open>\<open>d.setdefault(k, v)\<close>: stores \<open>v\<close> only when the key is absent.\<close>

definition setdefault :: "pydict \<Rightarrow> string \<Rightarrow> pyval \<Rightarrow> pydict" where
  "setdefault d k v = (case d k of None \<Rightarrow> d(k \<mapsto> v) | Some _ \<Rightarrow> d)"

text \<open>The comparison \<open>a >= b\<close> of two floats: false as soon as one side is NaN.\<close>

fun py_ge :: "pyfloat \<Rightarrow> pyfloat \<Rightarrow> bool" where
  "py_ge NaN _ = False"
| "py_ge _ NaN = False"
| "py_ge PInf _ = True"
| "py_ge _ NInf = True"
| "py_ge (Fin a) (Fin b) = (b \<le> a)"
| "py_ge (Fin a) PInf = False"
| "py_ge NInf _ = False"

subsection \<open>String methods\<close>

text \<open>
  \<open>str.lower\<close>, \<open>str.isalnum\<close> and the whitespace of \<open>str.strip\<close>, as Python defines them on
  the code points below 256.
\<close>

definition lower_char :: "char \<Rightarrow> char" where
  "lower_char c =
     (let n = (of_char c :: nat)
      in if (65 \<le> n \<and> n \<le> 90) \<or> (192 \<le> n \<and> n \<le> 222 \<and> n \<noteq> 215)
         then char_of (n + 32) else c)"

definition lower :: "string \<Rightarrow> string" where
  "lower s = map lower_char s"

definition isalnum :: "char \<Rightarrow> bool" where
  "isalnum c =
     (let n = (of_char c :: nat)
      in (48 \<le> n \<and> n \<le> 57) \<or> (65 \<le> n \<and> n \<le> 90) \<or> (97 \<le> n \<and> n \<le> 122)
         \<or> n \<in> {170, 178, 179, 181, 185, 186, 188, 189, 190}
         \<or> (192 \<le> n \<and> n \<le> 214) \<or> (216 \<le> n \<and> n \<le> 246) \<or> 248 \<le> n)"

definition isspace :: "char \<Rightarrow> bool" where
  "isspace c =
     (let n = (of_char c :: nat)
      in (9 \<le> n \<and> n \<le> 13) \<or> (28 \<le> n \<and> n \<le> 32) \<or> n = 133 \<or> n = 160)"

definition strip :: "string \<Rightarrow> string" where
  "strip s = rev (dropWhile isspace (rev (dropWhile isspace s)))"

text \<open>\<open>needle in haystack\<close> on strings.\<close>

fun str_in :: "string \<Rightarrow> string \<Rightarrow> bool" where
  "str_in n [] = (n = [])"
| "str_in n (h # hs) = (prefix n (h # hs) \<or> str_in n hs)"

section \<open>The environment\<close>

text \<open>
  What the program takes from outside its own code is a parameter of the model:
  the system clock (\<open>clock n\<close> is the text of the \<open>n\<close>-th reading, formatted as the
  reading call site formats it), the directory of the script, Python's \<open>float(str)\<close> and
  \<open>str(float)\<close>, the \<open>json\<close> module on lead lists, the Ollama chat model
  (\<open>Inl msg\<close> is an exception with message \<open>msg\<close>; its arguments are the clock tick,
  the model name, the base URL and the five prompt variables), and the file system:
  \<open>write_error dir name\<close> is the exception that \<open>write_text\<close> raises for the file \<open>name\<close>
  of the directory \<open>dir\<close>, and \<open>None\<close> when the file is written.
\<close>

record env =
  clock :: "nat \<Rightarrow> string"
  app_root :: string
  float_of_str :: "string \<Rightarrow> pyfloat option"
  str_of_float :: "pyfloat \<Rightarrow> string"
  json_dumps :: "lead list \<Rightarrow> string"
  json_loads :: "string \<Rightarrow> lead list option"
  llm_available :: bool
  llm_invoke :: "nat \<Rightarrow> pyval \<Rightarrow> pyval \<Rightarrow> pyval list \<Rightarrow> string + string"
  write_error :: "string \<Rightarrow> string \<Rightarrow> pyerr option"

text \<open>The body of a simulated call request, before \<open>json.dumps\<close>.\<close>

record call_payload =
  assistantId :: string
  phoneNumber :: pyval
  customer_name :: pyval
  customer_email :: pyval
  customer_company :: pyval
  metadata_leadEmail :: pyval
  webhookUrl :: string
  synthesis_prompt :: string

text \<open>
  Each outbox directory is the list of the writes that succeeded in it, oldest first, as
  (path, content). The notification log and \<open>leads.json\<close> are fixed files of directories
  the program creates at start: appending to the one and rewriting the other succeed.
\<close>

record world =
  ticks :: nat
  notif_log :: "string list"
  email_files :: "(string \<times> string) list"
  call_files :: "(string \<times> call_payload) list"
  proposal_files :: "(string \<times> string) list"
  leads_json :: "string option"

definition now_iso :: "env \<Rightarrow> world \<Rightarrow> string \<times> world" where
  "now_iso e w = (clock e (ticks w), w\<lparr>ticks := Suc (ticks w)\<rparr>)"

definition nl :: string where
  "nl = [CHR 0x0A]"

definition notify :: "env \<Rightarrow> string \<Rightarrow> world \<Rightarrow> world" where
  "notify e msg w =
     (let (t, w1) = now_iso e w
      in w1\<lparr>notif_log := notif_log w1 @ [t @ '' | '' @ msg @ nl]\<rparr>)"

section \<open>Lead store\<close>

definition load_leads :: "env \<Rightarrow> world \<Rightarrow> lead list" where
  "load_leads e w =
     (case leads_json w of
        None \<Rightarrow> []
      | Some txt \<Rightarrow> (case json_loads e txt of None \<Rightarrow> [] | Some ls \<Rightarrow> ls))"

definition save_leads :: "env \<Rightarrow> lead list \<Rightarrow> world \<Rightarrow> world" where
  "save_leads e leads w = w\<lparr>leads_json := Some (json_dumps e leads)\<rparr>"

text \<open>\<open>(x.get("Email") or "").lower()\<close>: a truthy value that is not a string has no \<open>lower\<close>.\<close>

definition email_key :: "lead \<Rightarrow> pyerr + string" where
  "email_key x =
     (case py_or (dget x ''Email'') (PStr '''') of
        PStr s \<Rightarrow> Inr (lower s)
      | _ \<Rightarrow> Inl AttributeError)"

text \<open>
  The generator inside \<open>next(..., None)\<close>: the records are visited in order, both keys are
  computed at each record, and the first index with equal keys is returned.
\<close>

fun find_idx :: "lead list \<Rightarrow> lead \<Rightarrow> nat \<Rightarrow> pyerr + nat option" where
  "find_idx [] cand i = Inr None"
| "find_idx (x # xs) cand i =
     (case email_key x of
        Inl err \<Rightarrow> Inl err
      | Inr kx \<Rightarrow>
          (case email_key cand of
             Inl err \<Rightarrow> Inl err
           | Inr kc \<Rightarrow> if kx = kc then Inr (Some i) else find_idx xs cand (Suc i)))"

definition upsert_lead :: "env \<Rightarrow> world \<Rightarrow> lead list \<Rightarrow> lead \<Rightarrow> pyerr + (world \<times> lead list)" where
  "upsert_lead e w leads cand =
     (case find_idx leads cand 0 of
        Inl err \<Rightarrow> Inl err
      | Inr idx \<Rightarrow>
          (let cand1 = setdefault cand ''Status'' (PStr ''New'');
               (t1, w1) = now_iso e w;
               cand2 = setdefault cand1 ''LastActionAt'' (PStr t1)
           in case idx of
                None \<Rightarrow> Inr (w1, leads @ [cand2])
              | Some i \<Rightarrow>
                  (let existing = leads ! i;
                       ex1 = existing ++ cand2;
                       ex2 = (if dget ex1 ''Status'' = PStr ''New'' \<or> dget ex1 ''Status'' = PStr ''Updated''
                              then ex1(''Status'' \<mapsto> PStr ''Updated'') else ex1);
                       (t2, w2) = now_iso e w1
                   in Inr (w2, leads[i := ex2(''LastActionAt'' \<mapsto> PStr t2)]))))"

section \<open>Proposal generation\<close>

text \<open>\<open>str(x)\<close>, as an f-string formats a value.\<close>

fun py_str :: "env \<Rightarrow> pyval \<Rightarrow> string" where
  "py_str e PNone = ''None''"
| "py_str e (PBool b) = (if b then ''True'' else ''False'')"
| "py_str e (PNum x) = str_of_float e x"
| "py_str e (PStr s) = s"

text \<open>
  The two dashes of the template are outside the character range of \<open>string\<close>; they are
  spelled by their UTF-8 bytes, which is what the written file holds.
\<close>

definition em_dash :: string where
  "em_dash = [CHR 0xE2, CHR 0x80, CHR 0x94]"

definition en_dash :: string where
  "en_dash = [CHR 0xE2, CHR 0x80, CHR 0x93]"

definition hdr1 :: string where
  "hdr1 = ''## 1) Problem summary''"

definition hdr2 :: string where
  "hdr2 = ''## 2) Proposed automation solution''"

definition hdr3 :: string where
  "hdr3 = ''## 3) Architecture (bullets)''"

definition hdr4 :: string where
  "hdr4 = ''## 4) Timeline & milestones''"

definition hdr5 :: string where
  "hdr5 = ''## 5) Pricing''"

definition hdr6 :: string where
  "hdr6 = ''## 6) Next steps''"

definition sec1 :: string where
  "sec1 = hdr1 @ nl @ ''Describe the current pain points and desired outcomes.'' @ nl @ nl"

definition sec2 :: string where
  "sec2 = hdr2 @ nl @ ''- People: roles and responsibilities'' @ nl
     @ ''- Process: key steps and governance'' @ nl
     @ ''- Tech: LLM + orchestration + integrations (swappable)'' @ nl @ nl"

definition sec3 :: string where
  "sec3 = hdr3 @ nl @ ''- Data intake -> Processing -> LLM -> Output'' @ nl
     @ ''- Observability & logging'' @ nl @ ''- Security & access'' @ nl @ nl"

definition sec4 :: string where
  "sec4 = hdr4 @ nl @ ''- Week 1'' @ en_dash @ ''2: Discovery & design'' @ nl
     @ ''- Week 3'' @ en_dash @ ''4: MVP build'' @ nl
     @ ''- Week 5'' @ en_dash @ ''6: Pilot & iteration'' @ nl @ nl"

definition sec5 :: string where
  "sec5 = hdr5 @ nl @ ''- Fixed fee within stated budget with clear deliverables.'' @ nl @ nl"

definition sec6 :: string where
  "sec6 = hdr6 @ nl @ ''- Reply to confirm and schedule a working session.'' @ nl"

text \<open>The fallback template (the \<open>return\<close> after the \<open>try\<close>).\<close>

definition fallback_template :: "env \<Rightarrow> lead \<Rightarrow> string" where
  "fallback_template e lead =
     ''# Automation Proposal '' @ em_dash @ '' ''
       @ py_str e (dget_or lead ''Company'' (PStr ''(Company)'')) @ nl @ nl
     @ ''**Prospect:** '' @ py_str e (dget_or lead ''Name'' (PStr [])) @ ''  '' @ nl
     @ ''**Email:** '' @ py_str e (dget_or lead ''Email'' (PStr [])) @ ''  '' @ nl
     @ ''**Use case:** ''
       @ py_str e (dget_or lead ''UseCase'' (dget_or lead ''AutomationNeed'' (PStr [])))
       @ ''  '' @ nl @ nl
     @ sec1 @ sec2 @ sec3 @ sec4 @ sec5 @ sec6"

text \<open>The variables handed to the prompt, in the order company, name, email, use case, budget.\<close>

definition prompt_vars :: "lead \<Rightarrow> pyval list" where
  "prompt_vars lead =
     [dget_or lead ''Company'' (PStr ''(Company)''),
      dget_or lead ''Name'' (PStr ''(Name)''),
      dget_or lead ''Email'' (PStr []),
      dget_or lead ''UseCase'' (dget_or lead ''AutomationNeed'' (PStr [])),
      dget_or lead ''Budget'' (PStr ''N/A'')]"

definition generate_proposal_md :: "env \<Rightarrow> lead \<Rightarrow> pydict \<Rightarrow> world \<Rightarrow> string \<times> world" where
  "generate_proposal_md e lead cfg w =
     (if llm_available e then
        (case llm_invoke e (ticks w) (dget_or cfg ''OLLAMA_MODEL'' (PStr ''gemma3''))
                (dget cfg ''OLLAMA_BASE_URL'') (prompt_vars lead) of
           Inr txt \<Rightarrow> (txt, w)
         | Inl msg \<Rightarrow>
             (fallback_template e lead,
              notify e (''LLM unavailable, using template: '' @ msg) w))
      else (fallback_template e lead, w))"

section \<open>Outbox writer\<close>

definition safe_char :: "char \<Rightarrow> bool" where
  "safe_char ch = (isalnum ch \<or> ch = CHR ''_'' \<or> ch = CHR ''-'' \<or> ch = CHR '' '')"

text \<open>\<open>s.replace(" ", "_")\<close>.\<close>

definition underscores :: "string \<Rightarrow> string" where
  "underscores s = map (\<lambda>ch. if ch = CHR '' '' then CHR ''_'' else ch) s"

text \<open>\<open>os.path.basename\<close> and \<open>Path.name\<close>: what follows the last slash.\<close>

definition basename :: "string \<Rightarrow> string" where
  "basename p = rev (takeWhile (\<lambda>ch. ch \<noteq> CHR ''/'') (rev p))"

text \<open>\<open>sep.join(parts)\<close>.\<close>

fun join :: "string \<Rightarrow> string list \<Rightarrow> string" where
  "join sep [] = []"
| "join sep [x] = x"
| "join sep (x # y # ys) = x @ sep @ join sep (y # ys)"

text \<open>
  The three artifact writers build a file name from their arguments and a clock reading
  and write the file. The company and the subject are filtered for the name; the
  recipient of an email and the email of a call request go into it as they are. A write
  that raises leaves the clock read and nothing written; the writers return the path or
  the exception, and the world reached.
\<close>

definition proposals_dir :: "env \<Rightarrow> string" where
  "proposals_dir e = app_root e @ ''/proposals''"

definition emails_dir :: "env \<Rightarrow> string" where
  "emails_dir e = app_root e @ ''/outbox/emails''"

definition calls_dir :: "env \<Rightarrow> string" where
  "calls_dir e = app_root e @ ''/outbox/call_requests''"

definition proposal_file_name :: "string \<Rightarrow> string \<Rightarrow> string" where
  "proposal_file_name s ts =
     (let safe1 = underscores (strip (filter safe_char s));
          safe = (if safe1 = [] then ''proposal'' else safe1)
      in safe @ ''_'' @ ts @ ''.md'')"

definition email_file_name :: "env \<Rightarrow> pyval \<Rightarrow> string \<Rightarrow> string \<Rightarrow> string" where
  "email_file_name e to_email subject ts =
     ts @ ''__'' @ py_str e to_email @ ''__''
       @ underscores (strip (take 80 (filter safe_char subject))) @ ''.md''"

definition call_file_name :: "env \<Rightarrow> lead \<Rightarrow> string \<Rightarrow> string" where
  "call_file_name e lead ts =
     ''call_'' @ py_str e (dget_or lead ''Email'' (PStr ''unknown'')) @ ''_'' @ ts @ ''.json''"

text \<open>
  \<open>save_proposal\<close>: iterating over \<open>company or "proposal"\<close> raises a TypeError when the
  company is a truthy value that is not a string.
\<close>

definition save_proposal :: "env \<Rightarrow> pyval \<Rightarrow> string \<Rightarrow> world \<Rightarrow> (pyerr + string) \<times> world" where
  "save_proposal e company content w =
     (case py_or company (PStr ''proposal'') of
        PStr s \<Rightarrow>
          (let (ts, w1) = now_iso e w;
               name = proposal_file_name s ts;
               path = proposals_dir e @ ''/'' @ name
           in case write_error e (proposals_dir e) name of
                Some err \<Rightarrow> (Inl err, w1)
              | None \<Rightarrow>
                  (Inr path, w1\<lparr>proposal_files := proposal_files w1 @ [(path, content)]\<rparr>))
      | _ \<Rightarrow> (Inl TypeError, w))"

text \<open>The lines of an email file, joined: the header, the body and the attachment list.\<close>

definition email_body :: "env \<Rightarrow> pyval \<Rightarrow> string \<Rightarrow> string \<Rightarrow> (string \<times> string) list \<Rightarrow> string" where
  "email_body e to_email subject html attachments =
     join nl ([''# To: '' @ py_str e to_email, ''# Subject: '' @ subject, [], html, []]
              @ (if attachments = [] then []
                 else ''## Attachments''
                        # map (\<lambda>att. ''- '' @ fst att @ '' -> '' @ snd att) attachments))"

definition save_email ::
  "env \<Rightarrow> pyval \<Rightarrow> string \<Rightarrow> string \<Rightarrow> (string \<times> string) list \<Rightarrow> world
     \<Rightarrow> (pyerr + string) \<times> world" where
  "save_email e to_email subject html attachments w =
     (let (ts, w1) = now_iso e w;
          name = email_file_name e to_email subject ts;
          path = emails_dir e @ ''/'' @ name
      in case write_error e (emails_dir e) name of
           Some err \<Rightarrow> (Inl err, w1)
         | None \<Rightarrow>
             (let w2 = w1\<lparr>email_files := email_files w1
                           @ [(path, email_body e to_email subject html attachments)]\<rparr>;
                  w3 = notify e (''Email saved: '' @ basename path @ '' -> ''
                                   @ py_str e to_email) w2
              in (Inr path, w3)))"

definition trigger_local_call :: "env \<Rightarrow> lead \<Rightarrow> world \<Rightarrow> (pyerr + string) \<times> world" where
  "trigger_local_call e lead w =
     (let payload = \<lparr>assistantId = ''local-assistant'',
                     phoneNumber = dget lead ''Phone'',
                     customer_name = dget lead ''Name'',
                     customer_email = dget lead ''Email'',
                     customer_company = dget lead ''Company'',
                     metadata_leadEmail = dget lead ''Email'',
                     webhookUrl = ''(local-streamlit)'',
                     synthesis_prompt = ''Friendly sales agent confirming proposal need.''\<rparr>;
          (ts, w1) = now_iso e w;
          name = call_file_name e lead ts;
          path = calls_dir e @ ''/'' @ name
      in case write_error e (calls_dir e) name of
           Some err \<Rightarrow> (Inl err, w1)
         | None \<Rightarrow>
             (let w2 = w1\<lparr>call_files := call_files w1 @ [(path, payload)]\<rparr>;
                  w3 = notify e ('' Simulated call created: '' @ basename path) w2
              in (Inr path, w3)))"

section \<open>Lead lifecycle\<close>

text \<open>\<open>float(x)\<close>: a string goes through the parser, \<open>None\<close> is a TypeError.\<close>

fun py_float :: "env \<Rightarrow> pyval \<Rightarrow> pyerr + pyfloat" where
  "py_float e PNone = Inl TypeError"
| "py_float e (PBool b) = Inr (Fin (if b then 1 else 0))"
| "py_float e (PNum x) = Inr x"
| "py_float e (PStr s) = (case float_of_str e s of None \<Rightarrow> Inl ValueError | Some x \<Rightarrow> Inr x)"

text \<open>
  \<open>budget_of\<close> is the first statement, \<open>float(lead.get("Budget") or 0)\<close>.
  \<open>auto_qualify\<close> returns the status; the lead is changed in place, so the model returns
  it too, with the world. When the conversion of the budget raises, nothing has been
  changed. When the call request of a qualified lead cannot be written, the exception
  leaves \<open>auto_qualify\<close> after the status and the time stamp were set.
\<close>

definition budget_of :: "env \<Rightarrow> lead \<Rightarrow> pyerr + pyfloat" where
  "budget_of e lead = py_float e (py_or (dget lead ''Budget'') (PNum (Fin 0)))"

definition auto_qualify ::
  "env \<Rightarrow> lead \<Rightarrow> pyfloat \<Rightarrow> world \<Rightarrow> (pyerr + string) \<times> lead \<times> world" where
  "auto_qualify e lead threshold w =
     (case budget_of e lead of
        Inl err \<Rightarrow> (Inl err, lead, w)
      | Inr budget \<Rightarrow>
          (let qualified = py_ge budget threshold;
               status = (if qualified then ''Qualified'' else ''Unqualified'');
               lead1 = lead(''Status'' \<mapsto> PStr status);
               (t, w1) = now_iso e w;
               lead2 = lead1(''LastActionAt'' \<mapsto> PStr t)
           in if qualified then
                (case trigger_local_call e lead2 w1 of
                   (Inl err, w2) \<Rightarrow> (Inl err, lead2, w2)
                 | (Inr path, w2) \<Rightarrow> (Inr status, lead2, w2))
              else (Inr status, lead2, w1)))"

text \<open>
  The body of the "Generate & Save Proposal" button of the Leads tab, for the lead it
  found. An exception leaves the lead and the outbox as they were when it was raised:
  the result is the exception (if any), the lead and the world.
\<close>

definition proposal_for_lead :: "env \<Rightarrow> pydict \<Rightarrow> lead \<Rightarrow> world \<Rightarrow> pyerr option \<times> lead \<times> world" where
  "proposal_for_lead e cfg lead w =
     (let (md, w1) = generate_proposal_md e lead cfg w
      in case save_proposal e (dget lead ''Company'') md w1 of
           (Inl err, w2) \<Rightarrow> (Some err, lead, w2)
         | (Inr path, w2) \<Rightarrow>
             (let lead1 = lead(''ProposalPath'' \<mapsto> PStr path);
                  lead2 = lead1(''Status'' \<mapsto> PStr ''Proposal Sent'')
              in case save_email e (dget lead2 ''Email'')
                        (py_str e (dget_or lead2 ''Company'' (PStr ''Your''))
                           @ '' Automation Proposal'')
                        ''<p>Attached proposal is saved locally.</p>''
                        [(basename path, path)] w2 of
                   (Inl err, w3) \<Rightarrow> (Some err, lead2, w3)
                 | (Inr epath, w3) \<Rightarrow> (None, lead2, w3)))"

text \<open>What a button handler shows: an uncaught exception, \<open>st.error\<close> or \<open>st.success\<close>.\<close>

datatype outcome = Raised pyerr | UiError string | UiSuccess string

text \<open>\<open>next((x for x in leads if (x.get("Email") or "").lower() == em.lower()), None)\<close>.\<close>

fun find_by_email :: "lead list \<Rightarrow> string \<Rightarrow> nat \<Rightarrow> pyerr + nat option" where
  "find_by_email [] em i = Inr None"
| "find_by_email (x # xs) em i =
     (case email_key x of
        Inl err \<Rightarrow> Inl err
      | Inr kx \<Rightarrow> if kx = lower em then Inr (Some i) else find_by_email xs em (Suc i))"

text \<open>\<open>if not lead\<close> also rejects a found lead that is an empty dictionary.\<close>

definition generate_and_save_proposal ::
  "env \<Rightarrow> pydict \<Rightarrow> string \<Rightarrow> lead list \<Rightarrow> world \<Rightarrow> outcome \<times> lead list \<times> world" where
  "generate_and_save_proposal e cfg em leads w =
     (case find_by_email leads em 0 of
        Inl err \<Rightarrow> (Raised err, leads, w)
      | Inr None \<Rightarrow> (UiError ''Lead not found.'', leads, w)
      | Inr (Some i) \<Rightarrow>
          if leads ! i = Map.empty then (UiError ''Lead not found.'', leads, w)
          else (case proposal_for_lead e cfg (leads ! i) w of
                  (Some err, lead', w') \<Rightarrow> (Raised err, leads[i := lead'], w')
                | (None, lead', w') \<Rightarrow>
                    (UiSuccess (''Proposal saved: '' @ py_str e (dget lead' ''ProposalPath'')),
                     leads[i := lead'], save_leads e (leads[i := lead']) w')))"

subsection \<open>Webhook simulator\<close>

definition proposal_keywords :: "string list" where
  "proposal_keywords =
     [''send a proposal'', ''yes proposal'', ''email the proposal'', ''want a proposal'',
      ''please send proposal'', ''yes'']"

text \<open>\<open>any(kw in transcript.lower() for kw in [...])\<close>.\<close>

definition wants_proposal :: "string \<Rightarrow> bool" where
  "wants_proposal transcript = list_ex (\<lambda>kw. str_in kw (lower transcript)) proposal_keywords"

definition no_answer_event :: "string \<Rightarrow> bool" where
  "no_answer_event event_type = (event_type = ''call.no_answer'' \<or> event_type = ''call.unanswered'')"

definition no_pickup_note :: string where
  "no_pickup_note = ''No pickup from local outbound''"

definition followup_subject :: string where
  "followup_subject = ''Follow-up: Let's schedule a quick call''"

definition followup_html :: string where
  "followup_html =
     ''<p>Hi, we tried reaching you by phone about your automation project.</p>''
     @ ''<p>You can reply to this email to coordinate a time.</p><p>'' @ em_dash @ '' Team</p>''"

text \<open>The mailbox emoji of the no-answer notification, by its UTF-8 bytes.\<close>

definition mailbox :: string where
  "mailbox = [CHR 0xF0, CHR 0x9F, CHR 0x93, CHR 0xAA]"

definition proposal_html :: string where
  "proposal_html = ''<p>Hi, attached is your tailored automation proposal. Happy to iterate.</p>''"

text \<open>
  The body of the "Send Event" button for the lead it found: the two branches on the
  event type, then the refresh of \<open>LastActionAt\<close>. As above, an exception leaves the
  lead and the outbox as they were when it was raised.
\<close>

definition webhook_event ::
  "env \<Rightarrow> pydict \<Rightarrow> string \<Rightarrow> string \<Rightarrow> lead \<Rightarrow> world \<Rightarrow> pyerr option \<times> lead \<times> world" where
  "webhook_event e cfg event_type transcript lead w =
     (if no_answer_event event_type then
        (let lead1 = lead(''Status'' \<mapsto> PStr ''No Answer'');
             lead2 = lead1(''Notes'' \<mapsto> PStr no_pickup_note)
         in case save_email e (dget lead2 ''Email'') followup_subject followup_html [] w of
              (Inl err, w1) \<Rightarrow> (Some err, lead2, w1)
            | (Inr epath, w1) \<Rightarrow>
                (let w2 = notify e (mailbox @ '' No answer '' @ em_dash
                                      @ '' follow-up saved. #lead-no-pickup'') w1;
                     (t, w3) = now_iso e w2
                 in (None, lead2(''LastActionAt'' \<mapsto> PStr t), w3)))
      else
        (let lead1 = lead(''CallTranscript'' \<mapsto> PStr (take 15000 transcript))
         in if wants_proposal transcript then
              (let (md, w1) = generate_proposal_md e lead1 cfg w
               in case save_proposal e (dget lead1 ''Company'') md w1 of
                    (Inl err, w2) \<Rightarrow> (Some err, lead1, w2)
                  | (Inr path, w2) \<Rightarrow>
                      (let lead2 = lead1(''ProposalPath'' \<mapsto> PStr path);
                           lead3 = lead2(''Status'' \<mapsto> PStr ''Proposal Sent'')
                       in case save_email e (dget lead3 ''Email'')
                                 (py_str e (dget_or lead3 ''Company'' (PStr ''Your''))
                                    @ '' Automation Proposal'')
                                 proposal_html [(basename path, path)] w2 of
                            (Inl err, w3) \<Rightarrow> (Some err, lead3, w3)
                          | (Inr epath, w3) \<Rightarrow>
                              (let w4 = notify e ('' Proposal saved for email to ''
                                                    @ py_str e (dget lead3 ''Email'')) w3;
                                   (t, w5) = now_iso e w4
                               in (None, lead3(''LastActionAt'' \<mapsto> PStr t), w5))))
            else
              (let w1 = notify e '' Call completed; no proposal requested or not detected.'' w;
                   (t, w2) = now_iso e w1
               in (None, lead1(''LastActionAt'' \<mapsto> PStr t), w2))))"

text \<open>
  Python's \<open>==\<close> on two values: numbers (booleans included) compare by value and NaN equals
  nothing; otherwise the values must be the same.
\<close>

fun py_num :: "pyval \<Rightarrow> pyfloat option" where
  "py_num (PBool b) = Some (Fin (if b then 1 else 0))"
| "py_num (PNum x) = Some x"
| "py_num _ = None"

definition py_eq :: "pyval \<Rightarrow> pyval \<Rightarrow> bool" where
  "py_eq a b =
     (case (py_num a, py_num b) of
        (Some x, Some y) \<Rightarrow> x = y \<and> x \<noteq> NaN
      | (None, None) \<Rightarrow> a = b
      | _ \<Rightarrow> False)"

text \<open>\<open>next((x for x in leads if x.get("Email") == em), None)\<close>.\<close>

fun find_exact :: "lead list \<Rightarrow> pyval \<Rightarrow> nat \<Rightarrow> nat option" where
  "find_exact [] em i = None"
| "find_exact (x # xs) em i = (if py_eq (dget x ''Email'') em then Some i else find_exact xs em (Suc i))"

definition send_event ::
  "env \<Rightarrow> pydict \<Rightarrow> pyval \<Rightarrow> string \<Rightarrow> string \<Rightarrow> lead list \<Rightarrow> world \<Rightarrow> outcome \<times> lead list \<times> world" where
  "send_event e cfg em event_type transcript leads w =
     (if py_eq em (PStr ''-'') then (UiError ''Select a lead.'', leads, w)
      else (case find_exact leads em 0 of
              None \<Rightarrow> (UiError ''Lead not found.'', leads, w)
            | Some i \<Rightarrow>
                if leads ! i = Map.empty then (UiError ''Lead not found.'', leads, w)
                else (case webhook_event e cfg event_type transcript (leads ! i) w of
                        (Some err, lead', w') \<Rightarrow> (Raised err, leads[i := lead'], w')
                      | (None, lead', w') \<Rightarrow>
                          (UiSuccess ''Event processed.'', leads[i := lead'],
                           save_leads e (leads[i := lead']) w'))))"

section \<open>Import pipeline\<close>

text \<open>
  A row of \<open>csv.DictReader\<close>: the header names with the cells, a cell being \<open>None\<close> where the
  row is short. Cells beyond the header are collected under the key \<open>None\<close>, on which
  \<open>k.strip()\<close> raises.
\<close>

type_synonym csv_row = "(string option \<times> string option) list"

fun norm_row :: "csv_row \<Rightarrow> pydict \<Rightarrow> pyerr + pydict" where
  "norm_row [] acc = Inr acc"
| "norm_row ((None, v) # r) acc = Inl AttributeError"
| "norm_row ((Some k, v) # r) acc =
     norm_row r (acc(lower (strip k) \<mapsto> (case v of None \<Rightarrow> PNone | Some s \<Rightarrow> PStr (strip s))))"

text \<open>
  The dictionary literal of the loop body, for the normalised row, the converted budget
  and the clock reading.
\<close>

definition lead_of_row :: "pydict \<Rightarrow> pyfloat \<Rightarrow> string \<Rightarrow> lead" where
  "lead_of_row nrm budget t =
     [''Name'' \<mapsto> py_or (py_or (dget nrm ''name'') (dget nrm ''prospect'')) (PStr []),
      ''Email'' \<mapsto> py_or (dget nrm ''email'') (PStr []),
      ''Company'' \<mapsto> dget nrm ''company'',
      ''UseCase'' \<mapsto> py_or (dget nrm ''usecase'') (dget nrm ''automationneed''),
      ''Budget'' \<mapsto> PNum budget,
      ''Phone'' \<mapsto> py_or (dget nrm ''phone'') PNone,
      ''Status'' \<mapsto> PStr ''New'',
      ''LastActionAt'' \<mapsto> PStr t]"

text \<open>
  The entries of the literal are evaluated in order, so the budget is converted before
  the clock is read: a budget that does not parse raises before anything else happens.
\<close>

definition row_lead :: "env \<Rightarrow> csv_row \<Rightarrow> world \<Rightarrow> pyerr + (lead \<times> world)" where
  "row_lead e row w =
     (case norm_row row Map.empty of
        Inl err \<Rightarrow> Inl err
      | Inr nrm \<Rightarrow>
          (case py_float e (py_or (dget nrm ''budget'') (PNum (Fin 0))) of
             Inl err \<Rightarrow> Inl err
           | Inr budget \<Rightarrow>
               (let (t, w1) = now_iso e w
                in Inr (lead_of_row nrm budget t, w1))))"

text \<open>
  The loop over the rows, with the collection and the count so far. An exception stops
  the loop where it is; the result then carries the state reached.
\<close>

fun import_loop ::
  "env \<Rightarrow> csv_row list \<Rightarrow> world \<Rightarrow> lead list \<Rightarrow> nat \<Rightarrow> pyerr option \<times> world \<times> lead list \<times> nat" where
  "import_loop e [] w leads n = (None, w, leads, n)"
| "import_loop e (row # rows) w leads n =
     (case row_lead e row w of
        Inl err \<Rightarrow> (Some err, w, leads, n)
      | Inr (lead, w1) \<Rightarrow>
          if truthy (dget lead ''Email'') then
            (case upsert_lead e w1 leads lead of
               Inl err \<Rightarrow> (Some err, w1, leads, n)
             | Inr (w2, leads2) \<Rightarrow> import_loop e rows w2 leads2 (Suc n))
          else import_loop e rows w1 leads n)"

text \<open>The upload handler: the loop, then \<open>save_leads\<close> when no exception cut it short.\<close>

definition import_csv ::
  "env \<Rightarrow> csv_row list \<Rightarrow> lead list \<Rightarrow> world \<Rightarrow> pyerr option \<times> nat \<times> lead list \<times> world" where
  "import_csv e rows leads w =
     (case import_loop e rows w leads 0 of
        (Some err, w1, leads1, n) \<Rightarrow> (Some err, n, leads1, w1)
      | (None, w1, leads1, n) \<Rightarrow> (None, n, leads1, save_leads e leads1 w1))"

section \<open>A concrete environment for the examples\<close>

text \<open>
  The examples below run the model in an environment whose clock reads \<open>t\<close>, \<open>t+\<close>,
  \<open>t++\<close>, ..., whose chat model refuses the connection, and whose \<open>float\<close> parses the
  strings of decimal digits and raises on every other string (Python parses more
  strings than these; none of them occurs in the examples). The \<open>json\<close> module plays no
  part in them. Its file system is the one of a fresh installation: the three
  directories exist and hold no directory, so that a name with a slash names a file of
  a directory that does not exist, and a name of more than 255 characters is too long.
\<close>

definition digit_char :: "char \<Rightarrow> bool" where
  "digit_char c = (48 \<le> (of_char c :: nat) \<and> (of_char c :: nat) \<le> 57)"

definition digits_float :: "string \<Rightarrow> pyfloat option" where
  "digits_float s =
     (if s \<noteq> [] \<and> list_all digit_char s
      then Some (Fin (real (foldl (\<lambda>a c. 10 * a + (of_char c - 48)) 0 s)))
      else None)"

definition fresh_write_error :: "string \<Rightarrow> string \<Rightarrow> pyerr option" where
  "fresh_write_error dir name =
     (if CHR ''/'' \<in> set name then Some FileNotFoundError
      else if 255 < length name then Some OSError
      else None)"

definition env0 :: env where
  "env0 = \<lparr>clock = (\<lambda>n. ''t'' @ replicate n (CHR ''+'')),
           app_root = ''/app'',
           float_of_str = digits_float,
           str_of_float = (\<lambda>x. ''?''),
           json_dumps = (\<lambda>ls. []),
           json_loads = (\<lambda>s. None),
           llm_available = True,
           llm_invoke = (\<lambda>n m u vs. Inl ''connection refused''),
           write_error = fresh_write_error\<rparr>"

definition world0 :: world where
  "world0 = \<lparr>ticks = 0, notif_log = [], email_files = [], call_files = [],
             proposal_files = [], leads_json = None\<rparr>"

section \<open>Predicates of the statements\<close>

text \<open>
  The email of a record is text when \<open>(x.get("Email") or "").lower()\<close> does not raise:
  the field is absent, falsy or a string.
\<close>

definition email_is_text :: "lead \<Rightarrow> bool" where
  "email_is_text x = (case email_key x of Inl err \<Rightarrow> False | Inr k \<Rightarrow> True)"

text \<open>
  The company of a record is text when \<open>save_proposal\<close> can iterate over it: the field is
  absent, falsy or a string. \<open>company_text\<close> is the text it iterates over.
\<close>

definition company_is_text :: "lead \<Rightarrow> bool" where
  "company_is_text x =
     (case py_or (dget x ''Company'') (PStr ''proposal'') of PStr s \<Rightarrow> True | _ \<Rightarrow> False)"

definition company_text :: "lead \<Rightarrow> string" where
  "company_text x =
     (case py_or (dget x ''Company'') (PStr ''proposal'') of PStr s \<Rightarrow> s | _ \<Rightarrow> [])"

text \<open>
  The status a merge leaves in the record found. The candidate's status (\<open>New\<close> when it has
  none) has overwritten the record's before the test of line 99 reads it, so it is a
  function of the candidate alone.
\<close>

definition merged_status :: "lead \<Rightarrow> pyval" where
  "merged_status cand =
     (if dget_or cand ''Status'' (PStr ''New'') = PStr ''New''
         \<or> dget_or cand ''Status'' (PStr ''New'') = PStr ''Updated''
      then PStr ''Updated'' else dget_or cand ''Status'' (PStr ''New''))"

section \<open>The lead store: matching and merging\<close>

lemma lower_Nil_iff: "lower s = [] \<longleftrightarrow> s = []"
  by (simp add: lower_def)

lemma lower_ex_upper: "lower ''A@X.com'' = ''a@x.com''"
  by code_simp

lemma lower_ex_lower: "lower ''a@x.com'' = ''a@x.com''"
  by code_simp

lemma email_key_falsy: "\<not> truthy (dget x ''Email'') \<Longrightarrow> email_key x = Inr []"
  by (simp add: email_key_def py_or_def lower_def)

lemma email_key_text:
  "email_is_text x \<Longrightarrow> \<exists>k. email_key x = Inr k \<and> (k = [] \<longleftrightarrow> \<not> truthy (dget x ''Email''))"
  by (cases "dget x ''Email''")
     (auto simp: email_is_text_def email_key_def py_or_def lower_def split: if_splits)

text \<open>
  The search, for a candidate without an email: either no record lacks an email and the
  search finds nothing, or it stops at the first record that lacks one.
\<close>

lemma find_idx_empty_cand:
  assumes "\<not> truthy (dget cand ''Email'')" and "\<forall>x\<in>set leads. email_is_text x"
  shows "(find_idx leads cand i = Inr None \<and> (\<forall>x\<in>set leads. truthy (dget x ''Email'')))
       \<or> (\<exists>j<length leads. find_idx leads cand i = Inr (Some (i + j))
             \<and> \<not> truthy (dget (leads ! j) ''Email'')
             \<and> (\<forall>k<j. truthy (dget (leads ! k) ''Email'')))"
  using assms(2)
proof (induction leads arbitrary: i)
  case Nil
  then show ?case by simp
next
  case (Cons x xs)
  from Cons.prems obtain k where k: "email_key x = Inr k" "k = [] \<longleftrightarrow> \<not> truthy (dget x ''Email'')"
    using email_key_text by auto
  have c: "email_key cand = Inr []" using assms(1) by (rule email_key_falsy)
  show ?case
  proof (cases "k = []")
    case True
    then have "find_idx (x # xs) cand i = Inr (Some (i + 0))" using k c by simp
    moreover have "\<not> truthy (dget ((x # xs) ! 0) ''Email'')" using True k by simp
    ultimately show ?thesis by (intro disjI2 exI[of _ 0]) simp
  next
    case False
    then have step: "find_idx (x # xs) cand i = find_idx xs cand (Suc i)" using k c by simp
    have tx: "truthy (dget x ''Email'')" using False k by simp
    from Cons.IH[of "Suc i"] Cons.prems
    consider (none) "find_idx xs cand (Suc i) = Inr None" "\<forall>x\<in>set xs. truthy (dget x ''Email'')"
      | (some) j where "j < length xs" "find_idx xs cand (Suc i) = Inr (Some (Suc i + j))"
          "\<not> truthy (dget (xs ! j) ''Email'')" "\<forall>k<j. truthy (dget (xs ! k) ''Email'')"
      by auto
    then show ?thesis
    proof cases
      case none
      then show ?thesis using step tx by simp
    next
      case some
      have "\<forall>k<Suc j. truthy (dget ((x # xs) ! k) ''Email'')"
        using some(4) tx by (auto simp: less_Suc_eq_0_disj)
      then show ?thesis using some step
        by (intro disjI2 exI[of _ "Suc j"]) simp
    qed
  qed
qed

text \<open>
  After a merge, the status of the merged record is decided by the candidate alone: the
  status the record had before plays no part.
\<close>

lemma merged_status_ignores_existing:
  assumes "find_idx leads cand 0 = Inr (Some j)" and "j < length leads"
  shows "\<exists>w' leads'. upsert_lead e w leads cand = Inr (w', leads')
           \<and> dget (leads' ! j) ''Status''
               = (if dget_or cand ''Status'' (PStr ''New'') = PStr ''New''
                     \<or> dget_or cand ''Status'' (PStr ''New'') = PStr ''Updated''
                  then PStr ''Updated'' else dget_or cand ''Status'' (PStr ''New''))"
  using assms
  by (auto simp: upsert_lead_def now_iso_def Let_def setdefault_def dget_def dget_or_def
        map_add_def split: option.splits)

text \<open>
  C1. The claim is that a merge leaves a status of Qualified, Unqualified, Proposal Sent
  or No Answer as it is. The code copies the candidate's fields first, its \<open>Status\<close>
  included (\<open>setdefault\<close> has given it one), and tests the status only afterwards: the
  record of a qualified lead, merged with a candidate as the form and the import build
  it (\<open>Status\<close> New), ends with the status Updated. The code's own comment reads
  "keep status if already beyond New/Updated".
\<close>

theorem upsert_reverts_progressed_status:
  "upsert_lead env0 world0
     [[''Email'' \<mapsto> PStr ''a@x.com'', ''Status'' \<mapsto> PStr ''Qualified'']]
     [''Email'' \<mapsto> PStr ''A@X.com'', ''Status'' \<mapsto> PStr ''New'', ''LastActionAt'' \<mapsto> PStr ''t'']
   = Inr (world0\<lparr>ticks := 2\<rparr>,
          [[''Email'' \<mapsto> PStr ''A@X.com'', ''Status'' \<mapsto> PStr ''Updated'',
            ''LastActionAt'' \<mapsto> PStr ''t+'']])"
  by (simp add: upsert_lead_def email_key_def py_or_def dget_def lower_ex_upper lower_ex_lower
        setdefault_def now_iso_def env0_def world0_def fun_eq_iff)

text \<open>The record a merge leaves at the index found, field by field.\<close>

lemma upsert_lead_merge:
  assumes "find_idx leads cand 0 = Inr (Some i)" and "i < length leads"
  shows "\<exists>l. upsert_lead e w leads cand = Inr (w\<lparr>ticks := Suc (Suc (ticks w))\<rparr>, leads[i := l])
           \<and> (\<forall>k. l k =
                 (if k = ''LastActionAt'' then Some (PStr (clock e (Suc (ticks w))))
                  else if k = ''Status'' then Some (merged_status cand)
                  else (case cand k of Some v \<Rightarrow> Some v | None \<Rightarrow> (leads ! i) k)))"
  using assms
  by (auto simp: upsert_lead_def now_iso_def Let_def setdefault_def dget_def dget_or_def
        merged_status_def map_add_def split: option.splits)

text \<open>
  C3, as the code has it. A candidate whose email is empty or missing never matches a
  record that has an email: those records stay as they are. It is appended, with its
  defaults, when every record has an email. Otherwise it is merged into the first
  record that has none: the collection keeps its length and its other records, and that
  record takes every field of the candidate, the status a merge leaves and a fresh time
  stamp, and keeps its other fields. (The emails of the stored records are text.)
\<close>

theorem upsert_empty_email:
  assumes "\<not> truthy (dget cand ''Email'')" and "\<forall>x\<in>set leads. email_is_text x"
  shows "\<exists>w' leads'. upsert_lead e w leads cand = Inr (w', leads')
     \<and> (\<forall>j<length leads. truthy (dget (leads ! j) ''Email'') \<longrightarrow> leads' ! j = leads ! j)
     \<and> ((\<forall>x\<in>set leads. truthy (dget x ''Email'')) \<longrightarrow>
          leads' = leads @ [setdefault (setdefault cand ''Status'' (PStr ''New''))
                              ''LastActionAt'' (PStr (clock e (ticks w)))])
     \<and> (\<forall>i<length leads.
           \<not> truthy (dget (leads ! i) ''Email'')
           \<and> (\<forall>k<i. truthy (dget (leads ! k) ''Email'')) \<longrightarrow>
             length leads' = length leads
           \<and> (\<forall>j<length leads. j \<noteq> i \<longrightarrow> leads' ! j = leads ! j)
           \<and> (\<forall>k. (leads' ! i) k =
                 (if k = ''LastActionAt'' then Some (PStr (clock e (Suc (ticks w))))
                  else if k = ''Status'' then Some (merged_status cand)
                  else (case cand k of Some v \<Rightarrow> Some v | None \<Rightarrow> (leads ! i) k))))"
proof -
  from find_idx_empty_cand[OF assms, of 0]
  consider (none) "find_idx leads cand 0 = Inr None" "\<forall>x\<in>set leads. truthy (dget x ''Email'')"
    | (some) j where "j < length leads" "find_idx leads cand 0 = Inr (Some j)"
        "\<not> truthy (dget (leads ! j) ''Email'')" "\<forall>k<j. truthy (dget (leads ! k) ''Email'')"
    by auto
  then show ?thesis
  proof cases
    case none
    have "\<not> (\<exists>i<length leads. \<not> truthy (dget (leads ! i) ''Email''))"
      using none(2) by auto
    with none show ?thesis
      by (auto simp: upsert_lead_def now_iso_def Let_def nth_append)
  next
    case some
    from upsert_lead_merge[OF some(2) some(1), of e w] obtain l where
      r: "upsert_lead e w leads cand = Inr (w\<lparr>ticks := Suc (Suc (ticks w))\<rparr>, leads[j := l])"
      and l: "\<forall>k. l k =
                 (if k = ''LastActionAt'' then Some (PStr (clock e (Suc (ticks w))))
                  else if k = ''Status'' then Some (merged_status cand)
                  else (case cand k of Some v \<Rightarrow> Some v | None \<Rightarrow> (leads ! j) k))"
      by blast
    have first: "i = j"
      if "i < length leads" "\<not> truthy (dget (leads ! i) ''Email'')"
         "\<forall>k<i. truthy (dget (leads ! k) ''Email'')" for i
    proof (rule ccontr)
      assume "i \<noteq> j"
      then consider "i < j" | "j < i" by linarith
      then show False
      proof cases
        case 1
        then show False using some(4) that(2) by auto
      next
        case 2
        then show False using that(3) some(3) by auto
      qed
    qed
    have kept: "leads[j := l] ! ja = leads ! ja"
      if "ja < length leads" "truthy (dget (leads ! ja) ''Email'')" for ja
      using that some(3) by (cases "ja = j") auto
    have notall: "\<not> (\<forall>x\<in>set leads. truthy (dget x ''Email''))"
      using some(1,3) by (metis nth_mem)
    show ?thesis
    proof (intro exI[of _ "w\<lparr>ticks := Suc (Suc (ticks w))\<rparr>"] exI[of _ "leads[j := l]"] conjI)
      show "upsert_lead e w leads cand = Inr (w\<lparr>ticks := Suc (Suc (ticks w))\<rparr>, leads[j := l])"
        by (rule r)
      show "\<forall>ja<length leads. truthy (dget (leads ! ja) ''Email'') \<longrightarrow> leads[j := l] ! ja = leads ! ja"
        using kept by blast
      show "(\<forall>x\<in>set leads. truthy (dget x ''Email'')) \<longrightarrow>
          leads[j := l] = leads @ [setdefault (setdefault cand ''Status'' (PStr ''New''))
                              ''LastActionAt'' (PStr (clock e (ticks w)))]"
        using notall by blast
      show "\<forall>i<length leads.
           \<not> truthy (dget (leads ! i) ''Email'')
           \<and> (\<forall>k<i. truthy (dget (leads ! k) ''Email'')) \<longrightarrow>
             length (leads[j := l]) = length leads
           \<and> (\<forall>ja<length leads. ja \<noteq> i \<longrightarrow> leads[j := l] ! ja = leads ! ja)
           \<and> (\<forall>k. (leads[j := l] ! i) k =
                 (if k = ''LastActionAt'' then Some (PStr (clock e (Suc (ticks w))))
                  else if k = ''Status'' then Some (merged_status cand)
                  else (case cand k of Some v \<Rightarrow> Some v | None \<Rightarrow> (leads ! i) k)))"
      proof (intro allI impI)
        fix i assume i: "i < length leads"
          and p: "\<not> truthy (dget (leads ! i) ''Email'')
                  \<and> (\<forall>k<i. truthy (dget (leads ! k) ''Email''))"
        then have ij: "i = j" using first by blast
        show "length (leads[j := l]) = length leads
           \<and> (\<forall>ja<length leads. ja \<noteq> i \<longrightarrow> leads[j := l] ! ja = leads ! ja)
           \<and> (\<forall>k. (leads[j := l] ! i) k =
                 (if k = ''LastActionAt'' then Some (PStr (clock e (Suc (ticks w))))
                  else if k = ''Status'' then Some (merged_status cand)
                  else (case cand k of Some v \<Rightarrow> Some v | None \<Rightarrow> (leads ! i) k)))"
          unfolding ij using l some(1) by simp
      qed
    qed
  qed
qed

text \<open>
  The theorem at a candidate without an email, first with a collection whose only record
  has an email (the candidate is appended), then with a collection whose second record
  has none (the candidate is merged into it).
\<close>

theorem upsert_empty_email_witness:
  "\<not> truthy (dget [''Name'' \<mapsto> PStr ''Bob''] ''Email'')
   \<and> email_is_text [''Email'' \<mapsto> PStr ''a@x.com'']
   \<and> email_is_text [''Name'' \<mapsto> PStr ''Ann'', ''Phone'' \<mapsto> PStr ''555'']
   \<and> (\<exists>w' leads'. upsert_lead env0 world0 [[''Email'' \<mapsto> PStr ''a@x.com'']] [''Name'' \<mapsto> PStr ''Bob'']
          = Inr (w', leads')
        \<and> leads' ! 0 = [''Email'' \<mapsto> PStr ''a@x.com'']
        \<and> length leads' = 2)
   \<and> (\<exists>w' leads'. upsert_lead env0 world0
            [[''Email'' \<mapsto> PStr ''a@x.com''], [''Name'' \<mapsto> PStr ''Ann'', ''Phone'' \<mapsto> PStr ''555'']]
            [''Name'' \<mapsto> PStr ''Bob'']
          = Inr (w', leads')
        \<and> leads' ! 0 = [''Email'' \<mapsto> PStr ''a@x.com'']
        \<and> length leads' = 2
        \<and> (leads' ! 1) ''Name'' = Some (PStr ''Bob'')
        \<and> (leads' ! 1) ''Phone'' = Some (PStr ''555'')
        \<and> (leads' ! 1) ''Status'' = Some (PStr ''Updated''))"
proof -
  let ?a = "[''Email'' \<mapsto> PStr ''a@x.com'']"
  let ?n = "[''Name'' \<mapsto> PStr ''Ann'', ''Phone'' \<mapsto> PStr ''555'']"
  let ?c = "[''Name'' \<mapsto> PStr ''Bob'']"
  have h1: "\<not> truthy (dget ?c ''Email'')"
    by (simp add: dget_def)
  have h2: "email_is_text ?a"
    by (simp add: email_is_text_def email_key_def py_or_def dget_def)
  have h2': "email_is_text ?n"
    by (simp add: email_is_text_def email_key_def py_or_def dget_def)
  have h3: "\<forall>x\<in>set [?a]. email_is_text x"
    using h2 by simp
  have h4: "\<forall>x\<in>set [?a, ?n]. email_is_text x"
    using h2 h2' by simp
  have t: "truthy (dget ?a ''Email'')" "\<not> truthy (dget ?n ''Email'')"
    by (simp_all add: dget_def)
  have ms: "merged_status ?c = PStr ''Updated''"
    by (simp add: merged_status_def dget_or_def)
  from upsert_empty_email[OF h1 h3, of env0 world0] t
  have first: "\<exists>w' leads'. upsert_lead env0 world0 [?a] ?c = Inr (w', leads')
        \<and> leads' ! 0 = ?a \<and> length leads' = 2"
    by auto
  from upsert_empty_email[OF h1 h4, of env0 world0] obtain w' leads' where
    r: "upsert_lead env0 world0 [?a, ?n] ?c = Inr (w', leads')"
    and keep: "\<forall>j<length [?a, ?n]. truthy (dget ([?a, ?n] ! j) ''Email'') \<longrightarrow> leads' ! j = [?a, ?n] ! j"
    and merge: "\<forall>i<length [?a, ?n].
           \<not> truthy (dget ([?a, ?n] ! i) ''Email'')
           \<and> (\<forall>k<i. truthy (dget ([?a, ?n] ! k) ''Email'')) \<longrightarrow>
             length leads' = length [?a, ?n]
           \<and> (\<forall>j<length [?a, ?n]. j \<noteq> i \<longrightarrow> leads' ! j = [?a, ?n] ! j)
           \<and> (\<forall>k. (leads' ! i) k =
                 (if k = ''LastActionAt'' then Some (PStr (clock env0 (Suc (ticks world0))))
                  else if k = ''Status'' then Some (merged_status ?c)
                  else (case ?c k of Some v \<Rightarrow> Some v | None \<Rightarrow> ([?a, ?n] ! i) k)))"
    by blast
  have pre: "\<not> truthy (dget ([?a, ?n] ! 1) ''Email'')
           \<and> (\<forall>k<1. truthy (dget ([?a, ?n] ! k) ''Email''))"
    using t by simp
  from merge[rule_format, of 1] pre
  have m: "length leads' = 2"
      "\<And>k. (leads' ! 1) k =
                 (if k = ''LastActionAt'' then Some (PStr (clock env0 (Suc (ticks world0))))
                  else if k = ''Status'' then Some (merged_status ?c)
                  else (case ?c k of Some v \<Rightarrow> Some v | None \<Rightarrow> ([?a, ?n] ! 1) k))"
    by auto
  from keep[rule_format, of 0] t have k0: "leads' ! 0 = ?a" by simp
  have second: "\<exists>w' leads'. upsert_lead env0 world0 [?a, ?n] ?c = Inr (w', leads')
        \<and> leads' ! 0 = ?a \<and> length leads' = 2
        \<and> (leads' ! 1) ''Name'' = Some (PStr ''Bob'')
        \<and> (leads' ! 1) ''Phone'' = Some (PStr ''555'')
        \<and> (leads' ! 1) ''Status'' = Some (PStr ''Updated'')"
    using r k0 m(1) m(2)[of "''Name''"] m(2)[of "''Phone''"] m(2)[of "''Status''"] ms
    by (intro exI[of _ w'] exI[of _ leads']) simp
  from h1 h2 h2' first second show ?thesis by blast
qed

text \<open>
  C3 as it is stated fails: a candidate with an empty email, upserted into a collection
  whose only record has an empty email too, is merged into that record instead of being
  appended. The collection still has one record, and it now carries the candidate's name.
\<close>

theorem upsert_merges_empty_emails:
  "upsert_lead env0 world0
     [[''Email'' \<mapsto> PStr [], ''Name'' \<mapsto> PStr ''Ann'', ''Status'' \<mapsto> PStr ''New'']]
     [''Email'' \<mapsto> PStr [], ''Name'' \<mapsto> PStr ''Bob'']
   = Inr (world0\<lparr>ticks := 2\<rparr>,
          [[''Email'' \<mapsto> PStr [], ''Name'' \<mapsto> PStr ''Bob'', ''Status'' \<mapsto> PStr ''Updated'',
            ''LastActionAt'' \<mapsto> PStr ''t+'']])"
  by (simp add: upsert_lead_def email_key_def py_or_def dget_def lower_def
        setdefault_def now_iso_def env0_def world0_def fun_eq_iff)

section \<open>Qualification\<close>

lemma budget_of_falsy: "\<not> truthy (dget lead ''Budget'') \<Longrightarrow> budget_of e lead = Inr (Fin 0)"
  by (simp add: budget_of_def py_or_def)

lemma budget_of_upd:
  "k \<noteq> ''Budget'' \<Longrightarrow> budget_of e (lead(k \<mapsto> v)) = budget_of e lead"
  by (simp add: budget_of_def dget_def)

lemma call_file_name_upd:
  "k \<noteq> ''Email'' \<Longrightarrow> call_file_name e (lead(k \<mapsto> v)) ts = call_file_name e lead ts"
  by (simp add: call_file_name_def dget_or_def)

lemma trigger_local_call_result:
  "fst (trigger_local_call e lead w)
     = (case write_error e (calls_dir e) (call_file_name e lead (clock e (ticks w))) of
          None \<Rightarrow> Inr (calls_dir e @ ''/'' @ call_file_name e lead (clock e (ticks w)))
        | Some err \<Rightarrow> Inl err)"
  by (simp add: trigger_local_call_def now_iso_def Let_def split: option.splits)

text \<open>
  What \<open>auto_qualify\<close> does once the budget is converted: the lead it leaves, and what it
  returns or raises.
\<close>

lemma auto_qualify_converted:
  assumes "budget_of e lead = Inr b"
  shows "fst (snd (auto_qualify e lead t w))
           = lead(''Status'' \<mapsto> PStr (if py_ge b t then ''Qualified'' else ''Unqualified''),
                  ''LastActionAt'' \<mapsto> PStr (clock e (ticks w)))"
    and "fst (auto_qualify e lead t w)
           = (if py_ge b t
              then (case write_error e (calls_dir e)
                           (call_file_name e lead (clock e (Suc (ticks w)))) of
                      None \<Rightarrow> Inr ''Qualified''
                    | Some err \<Rightarrow> Inl err)
              else Inr ''Unqualified'')"
proof -
  let ?l2 = "lead(''Status'' \<mapsto> PStr ''Qualified'', ''LastActionAt'' \<mapsto> PStr (clock e (ticks w)))"
  let ?w1 = "w\<lparr>ticks := Suc (ticks w)\<rparr>"
  have n: "call_file_name e ?l2 ts = call_file_name e lead ts" for ts
    by (simp add: call_file_name_upd)
  have f: "fst (trigger_local_call e ?l2 ?w1)
     = (case write_error e (calls_dir e) (call_file_name e lead (clock e (Suc (ticks w)))) of
          None \<Rightarrow> Inr (calls_dir e @ ''/'' @ call_file_name e lead (clock e (Suc (ticks w))))
        | Some err \<Rightarrow> Inl err)"
    by (simp add: trigger_local_call_result n split: option.splits)
  show "fst (snd (auto_qualify e lead t w))
           = lead(''Status'' \<mapsto> PStr (if py_ge b t then ''Qualified'' else ''Unqualified''),
                  ''LastActionAt'' \<mapsto> PStr (clock e (ticks w)))"
    using assms
    by (cases "trigger_local_call e ?l2 ?w1"; cases "fst (trigger_local_call e ?l2 ?w1)")
       (simp_all add: auto_qualify_def now_iso_def Let_def)
  show "fst (auto_qualify e lead t w)
           = (if py_ge b t
              then (case write_error e (calls_dir e)
                           (call_file_name e lead (clock e (Suc (ticks w)))) of
                      None \<Rightarrow> Inr ''Qualified''
                    | Some err \<Rightarrow> Inl err)
              else Inr ''Unqualified'')"
    using assms f
    by (cases "trigger_local_call e ?l2 ?w1"; cases "fst (trigger_local_call e ?l2 ?w1)")
       (auto simp: auto_qualify_def now_iso_def Let_def split: option.splits)
qed

text \<open>
  C4, as the code has it. The budget is \<open>float(lead.get("Budget") or 0)\<close>: it is 0 when
  the field is missing, \<open>None\<close> or empty. When that conversion succeeds with \<open>b\<close>,
  \<open>auto_qualify\<close> stores Qualified if and only if \<open>b >= t\<close> and Unqualified otherwise,
  with the time stamp. It returns that status, unless the call request of a qualified
  lead cannot be written: then the exception of the write leaves it, the status being
  stored already. A second run on the lead it left, in any state of the outbox, stores
  the same status. When the conversion raises, \<open>auto_qualify\<close> raises the same exception
  and has changed nothing.
\<close>

theorem auto_qualify_rule:
  "(\<not> truthy (dget lead ''Budget'') \<longrightarrow> budget_of e lead = Inr (Fin 0))
   \<and> (\<forall>b. budget_of e lead = Inr b \<longrightarrow>
        (\<exists>lead'. fst (snd (auto_qualify e lead t w)) = lead'
           \<and> lead' = lead(''Status'' \<mapsto> PStr (if py_ge b t then ''Qualified'' else ''Unqualified''),
                          ''LastActionAt'' \<mapsto> PStr (clock e (ticks w)))
           \<and> (lead' ''Status'' = Some (PStr ''Qualified'')) = py_ge b t
           \<and> (lead' ''Status'' = Some (PStr ''Unqualified'')) = (\<not> py_ge b t)
           \<and> fst (auto_qualify e lead t w)
               = (if py_ge b t
                  then (case write_error e (calls_dir e)
                               (call_file_name e lead (clock e (Suc (ticks w)))) of
                          None \<Rightarrow> Inr ''Qualified''
                        | Some err \<Rightarrow> Inl err)
                  else Inr ''Unqualified'')
           \<and> (\<forall>w2. fst (snd (auto_qualify e lead' t w2)) ''Status'' = lead' ''Status'')))
   \<and> (\<forall>err. budget_of e lead = Inl err \<longrightarrow> auto_qualify e lead t w = (Inl err, lead, w))"
proof (intro conjI allI impI)
  assume "\<not> truthy (dget lead ''Budget'')"
  then show "budget_of e lead = Inr (Fin 0)" by (rule budget_of_falsy)
next
  fix b assume b: "budget_of e lead = Inr b"
  let ?st = "if py_ge b t then ''Qualified'' else ''Unqualified''"
  let ?lead' = "lead(''Status'' \<mapsto> PStr ?st, ''LastActionAt'' \<mapsto> PStr (clock e (ticks w)))"
  have b': "budget_of e ?lead' = Inr b" using b by (simp add: budget_of_upd)
  have again: "fst (snd (auto_qualify e ?lead' t w2)) ''Status'' = ?lead' ''Status''" for w2
    by (simp add: auto_qualify_converted(1)[OF b'])
  show "\<exists>lead'. fst (snd (auto_qualify e lead t w)) = lead'
           \<and> lead' = lead(''Status'' \<mapsto> PStr ?st, ''LastActionAt'' \<mapsto> PStr (clock e (ticks w)))
           \<and> (lead' ''Status'' = Some (PStr ''Qualified'')) = py_ge b t
           \<and> (lead' ''Status'' = Some (PStr ''Unqualified'')) = (\<not> py_ge b t)
           \<and> fst (auto_qualify e lead t w)
               = (if py_ge b t
                  then (case write_error e (calls_dir e)
                               (call_file_name e lead (clock e (Suc (ticks w)))) of
                          None \<Rightarrow> Inr ''Qualified''
                        | Some err \<Rightarrow> Inl err)
                  else Inr ''Unqualified'')
           \<and> (\<forall>w2. fst (snd (auto_qualify e lead' t w2)) ''Status'' = lead' ''Status'')"
    using auto_qualify_converted[OF b, of t w] again
    by (intro exI[of _ ?lead']) auto
next
  fix err assume "budget_of e lead = Inl err"
  then show "auto_qualify e lead t w = (Inl err, lead, w)" by (simp add: auto_qualify_def)
qed

text \<open>
  The theorem at the threshold 10000, for a lead with the budget 15000, for a lead without
  a budget, and for a lead with the budget 15000 whose email holds a slash: the status
  Qualified is stored and the write of the call request raises.
\<close>

theorem auto_qualify_rule_witness:
  "budget_of env0 [''Email'' \<mapsto> PStr ''jane@acme.com'', ''Budget'' \<mapsto> PNum (Fin 15000)]
     = Inr (Fin 15000)
   \<and> fst (auto_qualify env0 [''Email'' \<mapsto> PStr ''jane@acme.com'', ''Budget'' \<mapsto> PNum (Fin 15000)]
            (Fin 10000) world0) = Inr ''Qualified''
   \<and> fst (snd (auto_qualify env0
                  [''Email'' \<mapsto> PStr ''jane@acme.com'', ''Budget'' \<mapsto> PNum (Fin 15000)]
                  (Fin 10000) world0)) ''Status'' = Some (PStr ''Qualified'')
   \<and> \<not> truthy (dget [''Email'' \<mapsto> PStr ''jane@acme.com''] ''Budget'')
   \<and> fst (auto_qualify env0 [''Email'' \<mapsto> PStr ''jane@acme.com''] (Fin 10000) world0)
       = Inr ''Unqualified''
   \<and> fst (snd (auto_qualify env0 [''Email'' \<mapsto> PStr ''jane@acme.com''] (Fin 10000) world0))
         ''Status'' = Some (PStr ''Unqualified'')
   \<and> fst (auto_qualify env0 [''Email'' \<mapsto> PStr ''a/b@x.com'', ''Budget'' \<mapsto> PNum (Fin 15000)]
            (Fin 10000) world0) = Inl FileNotFoundError
   \<and> fst (snd (auto_qualify env0
                  [''Email'' \<mapsto> PStr ''a/b@x.com'', ''Budget'' \<mapsto> PNum (Fin 15000)]
                  (Fin 10000) world0)) ''Status'' = Some (PStr ''Qualified'')"
proof -
  let ?lead = "[''Email'' \<mapsto> PStr ''jane@acme.com'', ''Budget'' \<mapsto> PNum (Fin 15000)]"
  let ?lead2 = "[''Email'' \<mapsto> PStr ''jane@acme.com'']"
  let ?lead3 = "[''Email'' \<mapsto> PStr ''a/b@x.com'', ''Budget'' \<mapsto> PNum (Fin 15000)]"
  have b: "budget_of env0 ?lead = Inr (Fin 15000)"
    by (simp add: budget_of_def py_or_def dget_def)
  have wr: "write_error env0 (calls_dir env0)
              (call_file_name env0 ?lead (clock env0 (Suc (ticks world0)))) = None"
    by (simp add: env0_def world0_def call_file_name_def dget_or_def fresh_write_error_def)
  have r1: "fst (auto_qualify env0 ?lead (Fin 10000) world0) = Inr ''Qualified''
     \<and> fst (snd (auto_qualify env0 ?lead (Fin 10000) world0)) ''Status''
         = Some (PStr ''Qualified'')"
    using auto_qualify_rule[of ?lead env0 "Fin 10000" world0] b wr by auto
  have f2: "\<not> truthy (dget ?lead2 ''Budget'')" by (simp add: dget_def)
  have r2: "fst (auto_qualify env0 ?lead2 (Fin 10000) world0) = Inr ''Unqualified''
     \<and> fst (snd (auto_qualify env0 ?lead2 (Fin 10000) world0)) ''Status''
         = Some (PStr ''Unqualified'')"
    using auto_qualify_rule[of ?lead2 env0 "Fin 10000" world0] f2 by auto
  have b3: "budget_of env0 ?lead3 = Inr (Fin 15000)"
    by (simp add: budget_of_def py_or_def dget_def)
  have wr3: "write_error env0 (calls_dir env0)
              (call_file_name env0 ?lead3 (clock env0 (Suc (ticks world0))))
             = Some FileNotFoundError"
    by (simp add: env0_def world0_def call_file_name_def dget_or_def fresh_write_error_def)
  have r3: "fst (auto_qualify env0 ?lead3 (Fin 10000) world0) = Inl FileNotFoundError
     \<and> fst (snd (auto_qualify env0 ?lead3 (Fin 10000) world0)) ''Status''
         = Some (PStr ''Qualified'')"
    using auto_qualify_rule[of ?lead3 env0 "Fin 10000" world0] b3 wr3 by auto
  show ?thesis using b f2 r1 r2 r3 by blast
qed

text \<open>
  C4 as it is stated fails: a budget that \<open>float\<close> cannot parse is not taken as 0. With
  the budget \<open>"abc"\<close> and the threshold 0 the claim gives Qualified; the code raises
  ValueError at its first statement and leaves the lead as it was.
\<close>

theorem auto_qualify_unparseable_budget:
  "auto_qualify env0 [''Email'' \<mapsto> PStr ''a@x.com'', ''Budget'' \<mapsto> PStr ''abc''] (Fin 0) world0
     = (Inl ValueError, [''Email'' \<mapsto> PStr ''a@x.com'', ''Budget'' \<mapsto> PStr ''abc''], world0)"
  by (simp add: auto_qualify_def budget_of_def py_or_def dget_def env0_def digits_float_def
        digit_char_def)

section \<open>What the outbox writers change\<close>

lemma notify_fields:
  "ticks (notify e msg w) = Suc (ticks w)"
  "notif_log (notify e msg w) = notif_log w @ [clock e (ticks w) @ '' | '' @ msg @ nl]"
  "email_files (notify e msg w) = email_files w"
  "call_files (notify e msg w) = call_files w"
  "proposal_files (notify e msg w) = proposal_files w"
  "leads_json (notify e msg w) = leads_json w"
  by (simp_all add: notify_def now_iso_def)

lemma now_iso_fields:
  "fst (now_iso e w) = clock e (ticks w)"
  "ticks (snd (now_iso e w)) = Suc (ticks w)"
  "notif_log (snd (now_iso e w)) = notif_log w"
  "email_files (snd (now_iso e w)) = email_files w"
  "call_files (snd (now_iso e w)) = call_files w"
  "proposal_files (snd (now_iso e w)) = proposal_files w"
  "leads_json (snd (now_iso e w)) = leads_json w"
  by (simp_all add: now_iso_def)

lemma generate_fields:
  "email_files (snd (generate_proposal_md e lead cfg w)) = email_files w"
  "call_files (snd (generate_proposal_md e lead cfg w)) = call_files w"
  "proposal_files (snd (generate_proposal_md e lead cfg w)) = proposal_files w"
  "leads_json (snd (generate_proposal_md e lead cfg w)) = leads_json w"
  by (simp_all add: generate_proposal_md_def notify_fields split: sum.splits)

lemma save_email_written:
  assumes "write_error e (emails_dir e) (email_file_name e to_email subject (clock e (ticks w))) = None"
  shows "save_email e to_email subject html atts w
           = (Inr (emails_dir e @ ''/'' @ email_file_name e to_email subject (clock e (ticks w))),
              w\<lparr>ticks := ticks w + 2,
                email_files := email_files w
                  @ [(emails_dir e @ ''/'' @ email_file_name e to_email subject (clock e (ticks w)),
                      email_body e to_email subject html atts)],
                notif_log := notif_log w
                  @ [clock e (Suc (ticks w)) @ '' | ''
                       @ (''Email saved: ''
                            @ basename (emails_dir e @ ''/''
                                @ email_file_name e to_email subject (clock e (ticks w)))
                            @ '' -> '' @ py_str e to_email) @ nl]\<rparr>)"
  using assms by (simp add: save_email_def notify_def now_iso_def Let_def)

lemma save_email_failed:
  assumes "write_error e (emails_dir e) (email_file_name e to_email subject (clock e (ticks w)))
             = Some err"
  shows "save_email e to_email subject html atts w = (Inl err, w\<lparr>ticks := Suc (ticks w)\<rparr>)"
  using assms by (simp add: save_email_def now_iso_def Let_def)

lemma save_proposal_not_text:
  "\<not> company_is_text lead \<Longrightarrow> save_proposal e (dget lead ''Company'') md w = (Inl TypeError, w)"
  by (auto simp: company_is_text_def save_proposal_def split: pyval.splits)

lemma save_proposal_written:
  assumes "company_is_text lead"
    and "write_error e (proposals_dir e)
           (proposal_file_name (company_text lead) (clock e (ticks w))) = None"
  shows "save_proposal e (dget lead ''Company'') md w
           = (Inr (proposals_dir e @ ''/''
                     @ proposal_file_name (company_text lead) (clock e (ticks w))),
              w\<lparr>ticks := Suc (ticks w),
                proposal_files := proposal_files w
                  @ [(proposals_dir e @ ''/''
                        @ proposal_file_name (company_text lead) (clock e (ticks w)), md)]\<rparr>)"
  using assms
  by (auto simp: company_is_text_def company_text_def save_proposal_def now_iso_def Let_def
        split: pyval.splits)

lemma save_proposal_failed:
  assumes "company_is_text lead"
    and "write_error e (proposals_dir e)
           (proposal_file_name (company_text lead) (clock e (ticks w))) = Some err"
  shows "save_proposal e (dget lead ''Company'') md w = (Inl err, w\<lparr>ticks := Suc (ticks w)\<rparr>)"
  using assms
  by (auto simp: company_is_text_def company_text_def save_proposal_def now_iso_def Let_def
        split: pyval.splits)

lemma company_is_text_upd:
  "k \<noteq> ''Company'' \<Longrightarrow> company_is_text (lead(k \<mapsto> v)) = company_is_text lead"
  by (simp add: company_is_text_def dget_def)

lemma company_text_upd:
  "k \<noteq> ''Company'' \<Longrightarrow> company_text (lead(k \<mapsto> v)) = company_text lead"
  by (simp add: company_text_def dget_def)

section \<open>Substrings\<close>

lemma str_in_iff: "str_in n h \<longleftrightarrow> (\<exists>p s. h = p @ n @ s)"
proof (induction h)
  case Nil
  then show ?case by auto
next
  case (Cons a h)
  show ?case
  proof
    assume "str_in n (a # h)"
    then consider "prefix n (a # h)" | "str_in n h" by auto
    then show "\<exists>p s. a # h = p @ n @ s"
    proof cases
      case 1
      then obtain s where "a # h = n @ s" by (auto simp: prefix_def)
      then have "a # h = [] @ n @ s" by simp
      then show ?thesis by blast
    next
      case 2
      then obtain p s where "h = p @ n @ s" using Cons.IH by auto
      then have "a # h = (a # p) @ n @ s" by simp
      then show ?thesis by blast
    qed
  next
    assume "\<exists>p s. a # h = p @ n @ s"
    then obtain p s where ps: "a # h = p @ n @ s" by auto
    show "str_in n (a # h)"
    proof (cases p)
      case Nil
      then have "prefix n (a # h)" using ps by (simp add: prefix_def)
      then show ?thesis by simp
    next
      case (Cons b p')
      then have "h = p' @ n @ s" using ps by simp
      then have "str_in n h" using Cons.IH by blast
      then show ?thesis by simp
    qed
  qed
qed

lemma str_in_concat: "x \<in> set xs \<Longrightarrow> str_in x (concat xs)"
proof -
  assume "x \<in> set xs"
  then obtain ys zs where "xs = ys @ x # zs" by (auto simp: in_set_conv_decomp)
  then have "concat xs = concat ys @ x @ concat zs" by simp
  then show ?thesis unfolding str_in_iff by blast
qed

lemma str_in_trans: "str_in a b \<Longrightarrow> str_in b c \<Longrightarrow> str_in a c"
proof -
  assume "str_in a b" "str_in b c"
  then obtain p s p' s' where "b = p @ a @ s" "c = p' @ b @ s'" unfolding str_in_iff by blast
  then have "c = (p' @ p) @ a @ (s @ s')" by simp
  then show ?thesis unfolding str_in_iff by blast
qed

lemma str_in_prefix: "str_in n (n @ s)"
  unfolding str_in_iff by (rule exI[of _ "[]"]) simp

lemma str_in_appendR: "str_in n ys \<Longrightarrow> str_in n (xs @ ys)"
proof -
  assume "str_in n ys"
  then obtain p s where "ys = p @ n @ s" unfolding str_in_iff by blast
  then have "xs @ ys = (xs @ p) @ n @ s" by simp
  then show ?thesis unfolding str_in_iff by blast
qed

section \<open>The fallback template\<close>

lemma fallback_pieces:
  "fallback_template e lead = concat
     [''# Automation Proposal '', em_dash, '' '',
      py_str e (dget_or lead ''Company'' (PStr ''(Company)'')), nl, nl,
      ''**Prospect:** '', py_str e (dget_or lead ''Name'' (PStr [])), ''  '', nl,
      ''**Email:** '', py_str e (dget_or lead ''Email'' (PStr [])), ''  '', nl,
      ''**Use case:** '',
      py_str e (dget_or lead ''UseCase'' (dget_or lead ''AutomationNeed'' (PStr []))),
      ''  '', nl, nl, sec1, sec2, sec3, sec4, sec5, sec6]"
  by (simp add: fallback_template_def)

text \<open>The template as its title line, its three field lines and its six sections.\<close>

lemma fallback_lines:
  "fallback_template e lead =
     (''# Automation Proposal '' @ em_dash @ '' ''
        @ py_str e (dget_or lead ''Company'' (PStr ''(Company)'')) @ nl)
     @ nl
     @ (''**Prospect:** '' @ py_str e (dget_or lead ''Name'' (PStr [])) @ ''  '' @ nl)
     @ (''**Email:** '' @ py_str e (dget_or lead ''Email'' (PStr [])) @ ''  '' @ nl)
     @ (''**Use case:** ''
          @ py_str e (dget_or lead ''UseCase'' (dget_or lead ''AutomationNeed'' (PStr [])))
          @ ''  '' @ nl)
     @ nl @ sec1 @ sec2 @ sec3 @ sec4 @ sec5 @ sec6"
  by (simp add: fallback_template_def)

lemma fallback_field_lines:
  "str_in (''# Automation Proposal '' @ em_dash @ '' ''
             @ py_str e (dget_or lead ''Company'' (PStr ''(Company)'')) @ nl)
     (fallback_template e lead)"
  "str_in (''**Prospect:** '' @ py_str e (dget_or lead ''Name'' (PStr [])) @ ''  '' @ nl)
     (fallback_template e lead)"
  "str_in (''**Email:** '' @ py_str e (dget_or lead ''Email'' (PStr [])) @ ''  '' @ nl)
     (fallback_template e lead)"
  "str_in (''**Use case:** ''
             @ py_str e (dget_or lead ''UseCase'' (dget_or lead ''AutomationNeed'' (PStr [])))
             @ ''  '' @ nl)
     (fallback_template e lead)"
proof -
  define l1 where "l1 = ''# Automation Proposal '' @ em_dash @ '' ''
        @ py_str e (dget_or lead ''Company'' (PStr ''(Company)'')) @ nl"
  define l2 where "l2 = ''**Prospect:** '' @ py_str e (dget_or lead ''Name'' (PStr [])) @ ''  '' @ nl"
  define l3 where "l3 = ''**Email:** '' @ py_str e (dget_or lead ''Email'' (PStr [])) @ ''  '' @ nl"
  define l4 where "l4 = ''**Use case:** ''
          @ py_str e (dget_or lead ''UseCase'' (dget_or lead ''AutomationNeed'' (PStr [])))
          @ ''  '' @ nl"
  define rest where "rest = nl @ sec1 @ sec2 @ sec3 @ sec4 @ sec5 @ sec6"
  have t: "fallback_template e lead = l1 @ nl @ l2 @ l3 @ l4 @ rest"
    unfolding fallback_lines l1_def l2_def l3_def l4_def rest_def by simp
  have "str_in l1 (fallback_template e lead)"
    unfolding t by (rule str_in_prefix)
  moreover have "str_in l2 (fallback_template e lead)"
    unfolding t by (rule str_in_appendR, rule str_in_appendR, rule str_in_prefix)
  moreover have "str_in l3 (fallback_template e lead)"
    unfolding t
    by (rule str_in_appendR, rule str_in_appendR, rule str_in_appendR, rule str_in_prefix)
  moreover have "str_in l4 (fallback_template e lead)"
    unfolding t
    by (rule str_in_appendR, rule str_in_appendR, rule str_in_appendR, rule str_in_appendR,
        rule str_in_prefix)
  ultimately show
    "str_in (''# Automation Proposal '' @ em_dash @ '' ''
             @ py_str e (dget_or lead ''Company'' (PStr ''(Company)'')) @ nl)
       (fallback_template e lead)"
    "str_in (''**Prospect:** '' @ py_str e (dget_or lead ''Name'' (PStr [])) @ ''  '' @ nl)
       (fallback_template e lead)"
    "str_in (''**Email:** '' @ py_str e (dget_or lead ''Email'' (PStr [])) @ ''  '' @ nl)
       (fallback_template e lead)"
    "str_in (''**Use case:** ''
             @ py_str e (dget_or lead ''UseCase'' (dget_or lead ''AutomationNeed'' (PStr [])))
             @ ''  '' @ nl)
       (fallback_template e lead)"
    unfolding l1_def l2_def l3_def l4_def by blast+
qed

lemma fallback_headers:
  "str_in ''## 1) Problem summary'' (fallback_template e lead)"
  "str_in ''## 2) Proposed automation solution'' (fallback_template e lead)"
  "str_in ''## 3) Architecture (bullets)'' (fallback_template e lead)"
  "str_in ''## 4) Timeline & milestones'' (fallback_template e lead)"
  "str_in ''## 5) Pricing'' (fallback_template e lead)"
  "str_in ''## 6) Next steps'' (fallback_template e lead)"
proof -
  have s: "str_in hdr1 sec1" "str_in hdr2 sec2" "str_in hdr3 sec3"
          "str_in hdr4 sec4" "str_in hdr5 sec5" "str_in hdr6 sec6"
    unfolding sec1_def sec2_def sec3_def sec4_def sec5_def sec6_def by (rule str_in_prefix)+
  have c: "str_in sec1 (fallback_template e lead)" "str_in sec2 (fallback_template e lead)"
          "str_in sec3 (fallback_template e lead)" "str_in sec4 (fallback_template e lead)"
          "str_in sec5 (fallback_template e lead)" "str_in sec6 (fallback_template e lead)"
    unfolding fallback_pieces by (rule str_in_concat, simp)+
  show "str_in ''## 1) Problem summary'' (fallback_template e lead)"
    using s(1) c(1) unfolding hdr1_def by (rule str_in_trans)
  show "str_in ''## 2) Proposed automation solution'' (fallback_template e lead)"
    using s(2) c(2) unfolding hdr2_def by (rule str_in_trans)
  show "str_in ''## 3) Architecture (bullets)'' (fallback_template e lead)"
    using s(3) c(3) unfolding hdr3_def by (rule str_in_trans)
  show "str_in ''## 4) Timeline & milestones'' (fallback_template e lead)"
    using s(4) c(4) unfolding hdr4_def by (rule str_in_trans)
  show "str_in ''## 5) Pricing'' (fallback_template e lead)"
    using s(5) c(5) unfolding hdr5_def by (rule str_in_trans)
  show "str_in ''## 6) Next steps'' (fallback_template e lead)"
    using s(6) c(6) unfolding hdr6_def by (rule str_in_trans)
qed

lemma generate_fallback:
  assumes "\<not> llm_available e
     \<or> (\<exists>msg. llm_invoke e (ticks w) (dget_or cfg ''OLLAMA_MODEL'' (PStr ''gemma3''))
                 (dget cfg ''OLLAMA_BASE_URL'') (prompt_vars lead) = Inl msg)"
  shows "fst (generate_proposal_md e lead cfg w) = fallback_template e lead"
  using assms by (auto simp: generate_proposal_md_def)

text \<open>
  C6, as the code has it. \<open>generate_proposal_md\<close> has no exceptional result: the \<open>try\<close>
  catches every failure of the model call. When the call fails (or the chat model could
  not be imported), the result is the fallback template. The template holds the six
  section headers. Its title line and its three field lines hold the lead's company,
  name, email and use case as \<open>str\<close> prints them: a string as it is, \<open>None\<close> as the word
  None. A use case missing from the lead is taken from \<open>AutomationNeed\<close>. Only a
  missing company is written as a placeholder, \<open>(Company)\<close>; a missing name, email or
  use case leaves its line empty.
\<close>

theorem proposal_fallback:
  assumes "\<not> llm_available e
     \<or> (\<exists>msg. llm_invoke e (ticks w) (dget_or cfg ''OLLAMA_MODEL'' (PStr ''gemma3''))
                 (dget cfg ''OLLAMA_BASE_URL'') (prompt_vars lead) = Inl msg)"
  shows "fst (generate_proposal_md e lead cfg w) = fallback_template e lead
     \<and> list_all (\<lambda>h. str_in h (fallback_template e lead))
         [''## 1) Problem summary'', ''## 2) Proposed automation solution'',
          ''## 3) Architecture (bullets)'', ''## 4) Timeline & milestones'',
          ''## 5) Pricing'', ''## 6) Next steps'']
     \<and> (\<forall>s. py_str e (PStr s) = s) \<and> py_str e PNone = ''None''
     \<and> (\<forall>v. lead ''Company'' = Some v \<longrightarrow>
           str_in (''# Automation Proposal '' @ em_dash @ '' '' @ py_str e v @ nl)
             (fallback_template e lead))
     \<and> (\<forall>v. lead ''Name'' = Some v \<longrightarrow>
           str_in (''**Prospect:** '' @ py_str e v @ ''  '' @ nl) (fallback_template e lead))
     \<and> (\<forall>v. lead ''Email'' = Some v \<longrightarrow>
           str_in (''**Email:** '' @ py_str e v @ ''  '' @ nl) (fallback_template e lead))
     \<and> (\<forall>v. lead ''UseCase'' = Some v \<longrightarrow>
           str_in (''**Use case:** '' @ py_str e v @ ''  '' @ nl) (fallback_template e lead))
     \<and> (\<forall>v. lead ''UseCase'' = None \<and> lead ''AutomationNeed'' = Some v \<longrightarrow>
           str_in (''**Use case:** '' @ py_str e v @ ''  '' @ nl) (fallback_template e lead))
     \<and> (lead ''Company'' = None \<longrightarrow>
           str_in (''# Automation Proposal '' @ em_dash @ '' (Company)'' @ nl)
             (fallback_template e lead))
     \<and> (lead ''Name'' = None \<longrightarrow>
           str_in (''**Prospect:**   '' @ nl) (fallback_template e lead))
     \<and> (lead ''Email'' = None \<longrightarrow>
           str_in (''**Email:**   '' @ nl) (fallback_template e lead))
     \<and> (lead ''UseCase'' = None \<and> lead ''AutomationNeed'' = None \<longrightarrow>
           str_in (''**Use case:**   '' @ nl) (fallback_template e lead))"
  using generate_fallback[OF assms] fallback_headers[of e lead] fallback_field_lines[of e lead]
  by (auto simp: dget_or_def)

text \<open>The theorem in the example environment, whose chat model refuses the connection.\<close>

theorem proposal_fallback_witness:
  "llm_invoke env0 (ticks world0) (dget_or Map.empty ''OLLAMA_MODEL'' (PStr ''gemma3''))
      (dget Map.empty ''OLLAMA_BASE_URL'')
      (prompt_vars [''Company'' \<mapsto> PStr ''Acme'', ''Name'' \<mapsto> PStr ''Jane Doe''])
     = Inl ''connection refused''
   \<and> fst (generate_proposal_md env0 [''Company'' \<mapsto> PStr ''Acme'', ''Name'' \<mapsto> PStr ''Jane Doe'']
             Map.empty world0)
       = fallback_template env0 [''Company'' \<mapsto> PStr ''Acme'', ''Name'' \<mapsto> PStr ''Jane Doe'']
   \<and> str_in ''## 1) Problem summary''
        (fallback_template env0 [''Company'' \<mapsto> PStr ''Acme'', ''Name'' \<mapsto> PStr ''Jane Doe''])
   \<and> str_in (''# Automation Proposal '' @ em_dash @ '' Acme'' @ nl)
        (fallback_template env0 [''Company'' \<mapsto> PStr ''Acme'', ''Name'' \<mapsto> PStr ''Jane Doe''])
   \<and> str_in (''**Prospect:** Jane Doe  '' @ nl)
        (fallback_template env0 [''Company'' \<mapsto> PStr ''Acme'', ''Name'' \<mapsto> PStr ''Jane Doe''])
   \<and> str_in (''**Email:**   '' @ nl)
        (fallback_template env0 [''Company'' \<mapsto> PStr ''Acme'', ''Name'' \<mapsto> PStr ''Jane Doe''])"
proof -
  let ?lead = "[''Company'' \<mapsto> PStr ''Acme'', ''Name'' \<mapsto> PStr ''Jane Doe'']"
  have h: "llm_invoke env0 (ticks world0) (dget_or Map.empty ''OLLAMA_MODEL'' (PStr ''gemma3''))
      (dget Map.empty ''OLLAMA_BASE_URL'') (prompt_vars ?lead) = Inl ''connection refused''"
    by (simp add: env0_def)
  then have h': "\<not> llm_available env0
     \<or> (\<exists>msg. llm_invoke env0 (ticks world0) (dget_or Map.empty ''OLLAMA_MODEL'' (PStr ''gemma3''))
                 (dget Map.empty ''OLLAMA_BASE_URL'') (prompt_vars ?lead) = Inl msg)"
    by blast
  from proposal_fallback[OF h'] h show ?thesis by simp
qed

text \<open>
  C6 as it is stated fails: missing fields are not written as placeholder text. For a
  lead as the CSV import stores it when the file has no company column (\<open>Company\<close> is
  \<open>None\<close>), without a name, an email and a use case, and a failing model call, the title
  carries the word None, and the lines of the prospect, the email and the use case are
  empty.
\<close>

theorem proposal_fallback_no_placeholder:
  "fst (generate_proposal_md env0 [''Company'' \<mapsto> PNone] Map.empty world0)
     = ''# Automation Proposal '' @ em_dash @ '' None'' @ nl @ nl
       @ ''**Prospect:**   '' @ nl
       @ ''**Email:**   '' @ nl
       @ ''**Use case:**   '' @ nl @ nl
       @ sec1 @ sec2 @ sec3 @ sec4 @ sec5 @ sec6"
  by (simp add: generate_proposal_md_def env0_def fallback_template_def dget_or_def)

section \<open>Webhook events\<close>

text \<open>
  A no-answer event whose follow-up email is written: the status, the note, the email,
  the notification and the fresh time stamp, whatever the transcript is.
\<close>

lemma webhook_no_answer_written:
  assumes "no_answer_event event_type"
    and "write_error e (emails_dir e)
           (email_file_name e (dget lead ''Email'') followup_subject (clock e (ticks w))) = None"
  shows "\<exists>w'. webhook_event e cfg event_type transcript lead w
           = (None,
              lead(''Status'' \<mapsto> PStr ''No Answer'', ''Notes'' \<mapsto> PStr no_pickup_note,
                   ''LastActionAt'' \<mapsto> PStr (clock e (ticks w + 3))), w')
         \<and> email_files w' = email_files w
              @ [(emails_dir e @ ''/''
                    @ email_file_name e (dget lead ''Email'') followup_subject (clock e (ticks w)),
                  email_body e (dget lead ''Email'') followup_subject followup_html [])]
         \<and> proposal_files w' = proposal_files w"
proof -
  have d: "dget (lead(''Status'' \<mapsto> PStr ''No Answer'', ''Notes'' \<mapsto> PStr no_pickup_note)) ''Email''
             = dget lead ''Email''"
    by (simp add: dget_def)
  show ?thesis
    using assms(1) save_email_written[OF assms(2), of followup_html "[]"]
    unfolding webhook_event_def Let_def case_prod_beta d
    by (simp add: notify_def now_iso_def numeral_3_eq_3)
qed

text \<open>
  A no-answer event whose follow-up email cannot be written: the exception leaves the
  handler after the status and the note were set, with no email, no notification and no
  fresh time stamp.
\<close>

lemma webhook_no_answer_failed:
  assumes "no_answer_event event_type"
    and "write_error e (emails_dir e)
           (email_file_name e (dget lead ''Email'') followup_subject (clock e (ticks w)))
         = Some err"
  shows "webhook_event e cfg event_type transcript lead w
           = (Some err,
              lead(''Status'' \<mapsto> PStr ''No Answer'', ''Notes'' \<mapsto> PStr no_pickup_note),
              w\<lparr>ticks := Suc (ticks w)\<rparr>)"
proof -
  have d: "dget (lead(''Status'' \<mapsto> PStr ''No Answer'', ''Notes'' \<mapsto> PStr no_pickup_note)) ''Email''
             = dget lead ''Email''"
    by (simp add: dget_def)
  show ?thesis
    using assms(1) save_email_failed[OF assms(2), of followup_html "[]"]
    unfolding webhook_event_def Let_def case_prod_beta d
    by simp
qed

text \<open>
  C8. The claim is that a no-answer event always sets the status and the note and writes
  one follow-up email. \<open>save_email\<close> puts the recipient into the file name as it is,
  while it filters the subject on the line before: for a lead whose email holds a slash
  the write raises FileNotFoundError. The status and the note are set, no email is
  written, nothing is logged and \<open>LastActionAt\<close> keeps its old value.
\<close>

theorem no_answer_email_not_written:
  "webhook_event env0 Map.empty ''call.no_answer'' ''No pickup.''
     [''Email'' \<mapsto> PStr ''a/b@x.com'', ''LastActionAt'' \<mapsto> PStr ''2025-01-01T00:00:00+00:00'',
      ''Status'' \<mapsto> PStr ''Qualified'']
     world0
   = (Some FileNotFoundError,
      [''Email'' \<mapsto> PStr ''a/b@x.com'', ''LastActionAt'' \<mapsto> PStr ''2025-01-01T00:00:00+00:00'',
       ''Status'' \<mapsto> PStr ''No Answer'', ''Notes'' \<mapsto> PStr no_pickup_note],
      world0\<lparr>ticks := 1\<rparr>)"
proof -
  let ?lead = "[''Email'' \<mapsto> PStr ''a/b@x.com'',
                ''LastActionAt'' \<mapsto> PStr ''2025-01-01T00:00:00+00:00'',
                ''Status'' \<mapsto> PStr ''Qualified'']"
  have na: "no_answer_event ''call.no_answer''" by (simp add: no_answer_event_def)
  have wr: "write_error env0 (emails_dir env0)
              (email_file_name env0 (dget ?lead ''Email'') followup_subject
                 (clock env0 (ticks world0))) = Some FileNotFoundError"
    by (simp add: env0_def fresh_write_error_def email_file_name_def dget_def)
  from webhook_no_answer_failed[OF na wr, of Map.empty "''No pickup.''"]
  show ?thesis by (simp add: world0_def)
qed

text \<open>An event of another type whose transcript asks for nothing.\<close>

lemma webhook_no_request:
  assumes na: "\<not> no_answer_event event_type" and wa: "\<not> wants_proposal transcript"
  shows "webhook_event e cfg event_type transcript lead w
           = (None,
              lead(''CallTranscript'' \<mapsto> PStr (take 15000 transcript),
                   ''LastActionAt'' \<mapsto> PStr (clock e (Suc (ticks w)))),
              w\<lparr>ticks := ticks w + 2,
                notif_log := notif_log w
                  @ [clock e (ticks w) @ '' | ''
                       @ '' Call completed; no proposal requested or not detected.'' @ nl]\<rparr>)"
  using na wa
  unfolding webhook_event_def Let_def case_prod_beta
  by (simp add: notify_def now_iso_def)

lemma webhook_transcript:
  assumes "\<not> no_answer_event event_type"
  shows "fst (snd (webhook_event e cfg event_type transcript lead w)) ''CallTranscript''
           = Some (PStr (take 15000 transcript))"
  using assms
  unfolding webhook_event_def Let_def case_prod_beta
  by (simp split: sum.splits)

text \<open>
  C9. For an event of another type, the transcript stored in \<open>CallTranscript\<close> is the first
  15000 characters of the input: the input itself when it has at most 15000 characters,
  and a text of exactly 15000 characters when it is longer. This holds also when the
  proposal step raises afterwards.
\<close>

theorem transcript_truncation:
  assumes "\<not> no_answer_event event_type"
  shows "fst (snd (webhook_event e cfg event_type transcript lead w)) ''CallTranscript''
           = Some (PStr (take 15000 transcript))
       \<and> (length transcript \<le> 15000 \<longrightarrow>
            fst (snd (webhook_event e cfg event_type transcript lead w)) ''CallTranscript''
              = Some (PStr transcript))
       \<and> (15000 < length transcript \<longrightarrow> length (take 15000 transcript) = 15000)"
  using webhook_transcript[OF assms, of e cfg transcript lead w] by simp

text \<open>The theorem at a short transcript.\<close>

theorem transcript_truncation_witness:
  "\<not> no_answer_event ''call.completed''
   \<and> fst (snd (webhook_event env0 Map.empty ''call.completed'' ''Not interested, thanks.''
                  [''Email'' \<mapsto> PStr ''a@x.com''] world0)) ''CallTranscript''
       = Some (PStr ''Not interested, thanks.'')"
proof -
  have h: "\<not> no_answer_event ''call.completed''" by (simp add: no_answer_event_def)
  from transcript_truncation[OF h, of env0 Map.empty "''Not interested, thanks.''"
         "[''Email'' \<mapsto> PStr ''a@x.com'']" world0] h
  show ?thesis by simp
qed

text \<open>
  An event of another type whose transcript asks for a proposal, both files being
  written: the proposal file with the generated text, its path and the status in the
  lead, the email with the proposal attached, and the fresh time stamp.
\<close>

lemma webhook_wants_written:
  assumes na: "\<not> no_answer_event event_type" and wa: "wants_proposal transcript"
    and ct: "company_is_text lead"
    and wp: "write_error e (proposals_dir e)
               (proposal_file_name (company_text lead)
                  (clock e (ticks (snd (generate_proposal_md e
                     (lead(''CallTranscript'' \<mapsto> PStr (take 15000 transcript))) cfg w))))) = None"
    and we: "write_error e (emails_dir e)
               (email_file_name e (dget lead ''Email'')
                  (py_str e (dget_or lead ''Company'' (PStr ''Your'')) @ '' Automation Proposal'')
                  (clock e (Suc (ticks (snd (generate_proposal_md e
                     (lead(''CallTranscript'' \<mapsto> PStr (take 15000 transcript))) cfg w)))))) = None"
  shows "\<exists>path epath t w'.
           webhook_event e cfg event_type transcript lead w
             = (None,
                lead(''CallTranscript'' \<mapsto> PStr (take 15000 transcript),
                     ''ProposalPath'' \<mapsto> PStr path,
                     ''Status'' \<mapsto> PStr ''Proposal Sent'',
                     ''LastActionAt'' \<mapsto> PStr t), w')
         \<and> proposal_files w' = proposal_files w
              @ [(path, fst (generate_proposal_md e
                               (lead(''CallTranscript'' \<mapsto> PStr (take 15000 transcript))) cfg w))]
         \<and> email_files w' = email_files w
              @ [(epath, email_body e (dget lead ''Email'')
                           (py_str e (dget_or lead ''Company'' (PStr ''Your'')) @ '' Automation Proposal'')
                           proposal_html [(basename path, path)])]
         \<and> call_files w' = call_files w"
proof -
  define lead1 where "lead1 = lead(''CallTranscript'' \<mapsto> PStr (take 15000 transcript))"
  define g where "g = generate_proposal_md e lead1 cfg w"
  define path where
    "path = proposals_dir e @ ''/'' @ proposal_file_name (company_text lead1) (clock e (ticks (snd g)))"
  define w2 where
    "w2 = (snd g)\<lparr>ticks := Suc (ticks (snd g)),
                   proposal_files := proposal_files (snd g) @ [(path, fst g)]\<rparr>"
  define lead3 where
    "lead3 = lead1(''ProposalPath'' \<mapsto> PStr path, ''Status'' \<mapsto> PStr ''Proposal Sent'')"
  have ct1: "company_is_text lead1" using ct by (simp add: lead1_def company_is_text_upd)
  have wp1: "write_error e (proposals_dir e)
               (proposal_file_name (company_text lead1) (clock e (ticks (snd g)))) = None"
    using wp by (simp add: g_def lead1_def company_text_upd)
  have sp: "save_proposal e (dget lead1 ''Company'') (fst g) (snd g) = (Inr path, w2)"
    using save_proposal_written[OF ct1 wp1, of "fst g"] by (simp add: path_def w2_def)
  have d3: "dget lead3 ''Email'' = dget lead ''Email''"
           "dget_or lead3 ''Company'' (PStr ''Your'') = dget_or lead ''Company'' (PStr ''Your'')"
    by (simp_all add: lead3_def lead1_def dget_def dget_or_def)
  have we2: "write_error e (emails_dir e)
               (email_file_name e (dget lead ''Email'')
                  (py_str e (dget_or lead ''Company'' (PStr ''Your'')) @ '' Automation Proposal'')
                  (clock e (ticks w2))) = None"
    using we by (simp add: w2_def g_def lead1_def)
  note se = save_email_written[OF we2, of proposal_html "[(basename path, path)]"]
  have gfields: "proposal_files (snd g) = proposal_files w" "email_files (snd g) = email_files w"
                "call_files (snd g) = call_files w"
    by (simp_all add: g_def generate_fields)
  show ?thesis
    using na wa sp se gfields
    unfolding webhook_event_def Let_def case_prod_beta lead1_def[symmetric] g_def[symmetric]
    apply (simp add: lead3_def[symmetric] d3 notify_def now_iso_def w2_def)
    apply (simp add: lead3_def lead1_def)
    apply blast
    done
qed

lemma wants_proposal_iff:
  "wants_proposal transcript
     = (\<exists>kw\<in>set proposal_keywords. \<exists>p s. lower transcript = p @ kw @ s)"
  by (simp add: wants_proposal_def list_ex_iff str_in_iff)

lemma wants_example: "wants_proposal ''Great chat. Please send a proposal.''"
  by code_simp

lemma not_wants_example: "\<not> wants_proposal ''Not interested, thanks.''"
  by code_simp

lemma wants_upper_example: "wants_proposal ''YES, PLEASE SEND A PROPOSAL''"
  by code_simp

text \<open>
  The same event when the proposal file is written and the email cannot be: the
  exception leaves the handler after the proposal was saved and the path and the status
  were set, with no email and no fresh time stamp.
\<close>

lemma webhook_wants_email_failed:
  assumes na: "\<not> no_answer_event event_type" and wa: "wants_proposal transcript"
    and ct: "company_is_text lead"
    and wp: "write_error e (proposals_dir e)
               (proposal_file_name (company_text lead)
                  (clock e (ticks (snd (generate_proposal_md e
                     (lead(''CallTranscript'' \<mapsto> PStr (take 15000 transcript))) cfg w))))) = None"
    and we: "write_error e (emails_dir e)
               (email_file_name e (dget lead ''Email'')
                  (py_str e (dget_or lead ''Company'' (PStr ''Your'')) @ '' Automation Proposal'')
                  (clock e (Suc (ticks (snd (generate_proposal_md e
                     (lead(''CallTranscript'' \<mapsto> PStr (take 15000 transcript))) cfg w))))))
             = Some err"
  shows "\<exists>w'. webhook_event e cfg event_type transcript lead w
             = (Some err,
                lead(''CallTranscript'' \<mapsto> PStr (take 15000 transcript),
                     ''ProposalPath'' \<mapsto> PStr (proposals_dir e @ ''/''
                        @ proposal_file_name (company_text lead)
                            (clock e (ticks (snd (generate_proposal_md e
                               (lead(''CallTranscript'' \<mapsto> PStr (take 15000 transcript))) cfg w))))),
                     ''Status'' \<mapsto> PStr ''Proposal Sent''), w')
         \<and> map fst (proposal_files w') = map fst (proposal_files w)
              @ [proposals_dir e @ ''/''
                        @ proposal_file_name (company_text lead)
                            (clock e (ticks (snd (generate_proposal_md e
                               (lead(''CallTranscript'' \<mapsto> PStr (take 15000 transcript))) cfg w))))]
         \<and> email_files w' = email_files w"
proof -
  define lead1 where "lead1 = lead(''CallTranscript'' \<mapsto> PStr (take 15000 transcript))"
  define g where "g = generate_proposal_md e lead1 cfg w"
  define path where
    "path = proposals_dir e @ ''/'' @ proposal_file_name (company_text lead) (clock e (ticks (snd g)))"
  define w2 where
    "w2 = (snd g)\<lparr>ticks := Suc (ticks (snd g)),
                   proposal_files := proposal_files (snd g) @ [(path, fst g)]\<rparr>"
  define lead3 where
    "lead3 = lead1(''ProposalPath'' \<mapsto> PStr path, ''Status'' \<mapsto> PStr ''Proposal Sent'')"
  have ct1: "company_is_text lead1" using ct by (simp add: lead1_def company_is_text_upd)
  have wp1: "write_error e (proposals_dir e)
               (proposal_file_name (company_text lead1) (clock e (ticks (snd g)))) = None"
    using wp by (simp add: g_def lead1_def company_text_upd)
  have sp: "save_proposal e (dget lead1 ''Company'') (fst g) (snd g) = (Inr path, w2)"
    using save_proposal_written[OF ct1 wp1, of "fst g"]
    by (simp add: path_def w2_def lead1_def company_text_upd)
  have d3: "dget lead3 ''Email'' = dget lead ''Email''"
           "dget_or lead3 ''Company'' (PStr ''Your'') = dget_or lead ''Company'' (PStr ''Your'')"
    by (simp_all add: lead3_def lead1_def dget_def dget_or_def)
  have we2: "write_error e (emails_dir e)
               (email_file_name e (dget lead ''Email'')
                  (py_str e (dget_or lead ''Company'' (PStr ''Your'')) @ '' Automation Proposal'')
                  (clock e (ticks w2))) = Some err"
    using we by (simp add: w2_def g_def lead1_def)
  note se = save_email_failed[OF we2, of proposal_html "[(basename path, path)]"]
  have gfields: "proposal_files (snd g) = proposal_files w" "email_files (snd g) = email_files w"
    by (simp_all add: g_def generate_fields)
  show ?thesis
    using na wa sp se gfields
    unfolding webhook_event_def Let_def case_prod_beta lead1_def[symmetric] g_def[symmetric]
      path_def[symmetric]
    by (simp add: lead3_def[symmetric] d3 w2_def)
qed

text \<open>
  C7. The claim is that, for an event that is not a no-answer, a proposal is generated,
  its path and the status are set and the proposal email is written exactly when the
  transcript holds one of the phrases. For the transcript "Great chat. Please send a
  proposal." and a lead whose email holds a slash, the proposal is written and the path
  and the status are set, and the email is not written: \<open>save_email\<close> puts the recipient
  into the file name as it is, the write raises FileNotFoundError, and \<open>LastActionAt\<close>
  keeps its old value.
\<close>

theorem proposal_email_not_written:
  "fst (webhook_event env0 Map.empty ''call.completed'' ''Great chat. Please send a proposal.''
          [''Email'' \<mapsto> PStr ''a/b@x.com'', ''Company'' \<mapsto> PStr ''Acme'',
           ''LastActionAt'' \<mapsto> PStr ''2025-01-01T00:00:00+00:00''] world0)
     = Some FileNotFoundError
   \<and> fst (snd (webhook_event env0 Map.empty ''call.completed''
          ''Great chat. Please send a proposal.''
          [''Email'' \<mapsto> PStr ''a/b@x.com'', ''Company'' \<mapsto> PStr ''Acme'',
           ''LastActionAt'' \<mapsto> PStr ''2025-01-01T00:00:00+00:00''] world0))
     = [''Email'' \<mapsto> PStr ''a/b@x.com'', ''Company'' \<mapsto> PStr ''Acme'',
        ''LastActionAt'' \<mapsto> PStr ''2025-01-01T00:00:00+00:00'',
        ''CallTranscript'' \<mapsto> PStr ''Great chat. Please send a proposal.'',
        ''ProposalPath'' \<mapsto> PStr ''/app/proposals/Acme_t+.md'',
        ''Status'' \<mapsto> PStr ''Proposal Sent'']
   \<and> map fst (proposal_files (snd (snd (webhook_event env0 Map.empty ''call.completed''
          ''Great chat. Please send a proposal.''
          [''Email'' \<mapsto> PStr ''a/b@x.com'', ''Company'' \<mapsto> PStr ''Acme'',
           ''LastActionAt'' \<mapsto> PStr ''2025-01-01T00:00:00+00:00''] world0))))
     = [''/app/proposals/Acme_t+.md'']
   \<and> email_files (snd (snd (webhook_event env0 Map.empty ''call.completed''
          ''Great chat. Please send a proposal.''
          [''Email'' \<mapsto> PStr ''a/b@x.com'', ''Company'' \<mapsto> PStr ''Acme'',
           ''LastActionAt'' \<mapsto> PStr ''2025-01-01T00:00:00+00:00''] world0)))
     = []"
proof -
  let ?lead = "[''Email'' \<mapsto> PStr ''a/b@x.com'', ''Company'' \<mapsto> PStr ''Acme'',
           ''LastActionAt'' \<mapsto> PStr ''2025-01-01T00:00:00+00:00'']"
  let ?tr = "''Great chat. Please send a proposal.''"
  have na: "\<not> no_answer_event ''call.completed''" by (simp add: no_answer_event_def)
  have ct: "company_is_text ?lead" by (simp add: company_is_text_def py_or_def dget_def)
  have cx: "company_text ?lead = ''Acme''" by (simp add: company_text_def py_or_def dget_def)
  have g: "ticks (snd (generate_proposal_md env0 (?lead(''CallTranscript'' \<mapsto> PStr (take 15000 ?tr)))
                         Map.empty world0)) = 1"
    by (simp add: generate_proposal_md_def env0_def world0_def notify_fields)
  have pn: "proposal_file_name ''Acme'' ''t+'' = ''Acme_t+.md''"
    by (simp add: proposal_file_name_def safe_char_def isalnum_def strip_def isspace_def
          underscores_def)
  have cl: "clock env0 1 = ''t+''" by (simp add: env0_def)
  have wp: "write_error env0 (proposals_dir env0)
               (proposal_file_name (company_text ?lead)
                  (clock env0 (ticks (snd (generate_proposal_md env0
                     (?lead(''CallTranscript'' \<mapsto> PStr (take 15000 ?tr))) Map.empty world0)))))
             = None"
    unfolding g cx cl pn by (simp add: env0_def fresh_write_error_def)
  have sl: "fresh_write_error d (email_file_name env0 (PStr ''a/b@x.com'') s ts)
              = Some FileNotFoundError" for d s ts
    by (simp add: fresh_write_error_def email_file_name_def)
  have de: "dget ?lead ''Email'' = PStr ''a/b@x.com''" by (simp add: dget_def)
  have wr: "write_error env0 = fresh_write_error" by (simp add: env0_def)
  have we: "write_error env0 (emails_dir env0)
               (email_file_name env0 (dget ?lead ''Email'')
                  (py_str env0 (dget_or ?lead ''Company'' (PStr ''Your'')) @ '' Automation Proposal'')
                  (clock env0 (Suc (ticks (snd (generate_proposal_md env0
                     (?lead(''CallTranscript'' \<mapsto> PStr (take 15000 ?tr))) Map.empty world0))))))
             = Some FileNotFoundError"
    unfolding de wr by (rule sl)
  have pd: "proposals_dir env0 = ''/app/proposals''" by (simp add: proposals_dir_def env0_def)
  have e0: "proposal_files world0 = []" "email_files world0 = []" by (simp_all add: world0_def)
  have tk: "take 15000 ?tr = ?tr" by simp
  have pn1: "proposal_file_name ''Acme'' (clock env0 (Suc 0)) = ''Acme_t+.md''"
    using pn cl by simp
  have g0: "ticks (snd (generate_proposal_md env0 (?lead(''CallTranscript'' \<mapsto> PStr ?tr))
                         Map.empty world0)) = 1"
    using g by (simp only: tk)
  from webhook_wants_email_failed[OF na wants_example ct wp we]
  obtain w' where
    r: "webhook_event env0 Map.empty ''call.completed'' ?tr ?lead world0
          = (Some FileNotFoundError,
             ?lead(''CallTranscript'' \<mapsto> PStr ?tr,
                   ''ProposalPath'' \<mapsto> PStr ''/app/proposals/Acme_t+.md'',
                   ''Status'' \<mapsto> PStr ''Proposal Sent''), w')"
       "map fst (proposal_files w') = [''/app/proposals/Acme_t+.md'']"
       "email_files w' = []"
    by (auto simp add: g cx pn1 pd e0 tk g0)
  show ?thesis
    unfolding r fst_conv snd_conv by (simp add: r)
qed

section \<open>The proposal button of the Leads tab\<close>

lemma proposal_for_lead_written:
  assumes ct: "company_is_text lead"
    and wp: "write_error e (proposals_dir e)
               (proposal_file_name (company_text lead)
                  (clock e (ticks (snd (generate_proposal_md e lead cfg w))))) = None"
    and we: "write_error e (emails_dir e)
               (email_file_name e (dget lead ''Email'')
                  (py_str e (dget_or lead ''Company'' (PStr ''Your'')) @ '' Automation Proposal'')
                  (clock e (Suc (ticks (snd (generate_proposal_md e lead cfg w)))))) = None"
  shows "\<exists>path w'. proposal_for_lead e cfg lead w
           = (None, lead(''ProposalPath'' \<mapsto> PStr path, ''Status'' \<mapsto> PStr ''Proposal Sent''), w')
         \<and> ticks w' = ticks (snd (generate_proposal_md e lead cfg w)) + 3"
proof -
  define g where "g = generate_proposal_md e lead cfg w"
  define path where
    "path = proposals_dir e @ ''/'' @ proposal_file_name (company_text lead) (clock e (ticks (snd g)))"
  define w2 where
    "w2 = (snd g)\<lparr>ticks := Suc (ticks (snd g)),
                   proposal_files := proposal_files (snd g) @ [(path, fst g)]\<rparr>"
  define lead2 where
    "lead2 = lead(''ProposalPath'' \<mapsto> PStr path, ''Status'' \<mapsto> PStr ''Proposal Sent'')"
  have sp: "save_proposal e (dget lead ''Company'') (fst g) (snd g) = (Inr path, w2)"
    using save_proposal_written[OF ct wp[folded g_def], of "fst g"]
    by (simp add: path_def w2_def)
  have d2: "dget lead2 ''Email'' = dget lead ''Email''"
           "dget_or lead2 ''Company'' (PStr ''Your'') = dget_or lead ''Company'' (PStr ''Your'')"
    by (simp_all add: lead2_def dget_def dget_or_def)
  have we2: "write_error e (emails_dir e)
               (email_file_name e (dget lead ''Email'')
                  (py_str e (dget_or lead ''Company'' (PStr ''Your'')) @ '' Automation Proposal'')
                  (clock e (ticks w2))) = None"
    using we by (simp add: w2_def g_def)
  note se = save_email_written[OF we2, of "''<p>Attached proposal is saved locally.</p>''"
              "[(basename path, path)]"]
  show ?thesis
    using sp se
    unfolding proposal_for_lead_def Let_def case_prod_beta g_def[symmetric]
    apply (simp add: lead2_def[symmetric] d2 w2_def)
    apply (simp add: lead2_def)
    apply blast
    done
qed

text \<open>Whatever happens, the button body leaves \<open>LastActionAt\<close> as it was.\<close>

lemma proposal_for_lead_last_action:
  "fst (snd (proposal_for_lead e cfg lead w)) ''LastActionAt'' = lead ''LastActionAt''"
  unfolding proposal_for_lead_def Let_def case_prod_beta
  by (simp split: sum.splits)

text \<open>
  C2. The claim is that every action that changes a lead refreshes \<open>LastActionAt\<close>. The
  proposal button of the Leads tab does not: pressed for a qualified lead, it sets
  \<open>ProposalPath\<close> and the status Proposal Sent and leaves \<open>LastActionAt\<close> as it was,
  although the clock was read four times on the way. The webhook handler, which runs the
  same steps, ends with the refresh.
\<close>

theorem leads_tab_proposal_keeps_last_action:
  "map (\<lambda>l. (l ''Status'', l ''LastActionAt''))
     (fst (snd (generate_and_save_proposal env0 Map.empty ''a@x.com''
        [[''Email'' \<mapsto> PStr ''a@x.com'', ''Company'' \<mapsto> PStr ''Acme'',
          ''Status'' \<mapsto> PStr ''Qualified'',
          ''LastActionAt'' \<mapsto> PStr ''2025-01-01T00:00:00+00:00'']] world0)))
   = [(Some (PStr ''Proposal Sent''), Some (PStr ''2025-01-01T00:00:00+00:00''))]
   \<and> ticks (snd (snd (generate_and_save_proposal env0 Map.empty ''a@x.com''
        [[''Email'' \<mapsto> PStr ''a@x.com'', ''Company'' \<mapsto> PStr ''Acme'',
          ''Status'' \<mapsto> PStr ''Qualified'',
          ''LastActionAt'' \<mapsto> PStr ''2025-01-01T00:00:00+00:00'']] world0))) = 4"
proof -
  let ?lead = "[''Email'' \<mapsto> PStr ''a@x.com'', ''Company'' \<mapsto> PStr ''Acme'',
           ''Status'' \<mapsto> PStr ''Qualified'', ''LastActionAt'' \<mapsto> PStr ''2025-01-01T00:00:00+00:00'']"
  have ct: "company_is_text ?lead" by (simp add: company_is_text_def py_or_def dget_def)
  have cx: "company_text ?lead = ''Acme''" by (simp add: company_text_def py_or_def dget_def)
  have g: "ticks (snd (generate_proposal_md env0 ?lead Map.empty world0)) = 1"
    by (simp add: generate_proposal_md_def env0_def world0_def notify_fields)
  have pn: "proposal_file_name ''Acme'' ''t+'' = ''Acme_t+.md''"
    by (simp add: proposal_file_name_def safe_char_def isalnum_def strip_def isspace_def
          underscores_def)
  have cl: "clock env0 1 = ''t+''" "clock env0 (Suc 1) = ''t++''"
    by (simp_all add: env0_def)
  have en: "email_file_name env0 (PStr ''a@x.com'') ''Acme Automation Proposal'' ''t++''
              = ''t++__a@x.com__Acme_Automation_Proposal.md''"
    by (simp add: email_file_name_def safe_char_def isalnum_def strip_def isspace_def
          underscores_def)
  have wp: "write_error env0 (proposals_dir env0)
               (proposal_file_name (company_text ?lead)
                  (clock env0 (ticks (snd (generate_proposal_md env0 ?lead Map.empty world0)))))
             = None"
    unfolding g cx cl pn by (simp add: env0_def fresh_write_error_def)
  have su: "py_str env0 (dget_or ?lead ''Company'' (PStr ''Your'')) @ '' Automation Proposal''
              = ''Acme Automation Proposal''"
    by (simp add: dget_or_def)
  have de: "dget ?lead ''Email'' = PStr ''a@x.com''" by (simp add: dget_def)
  have we: "write_error env0 (emails_dir env0)
               (email_file_name env0 (dget ?lead ''Email'')
                  (py_str env0 (dget_or ?lead ''Company'' (PStr ''Your'')) @ '' Automation Proposal'')
                  (clock env0 (Suc (ticks (snd (generate_proposal_md env0 ?lead Map.empty world0))))))
             = None"
    unfolding g su de cl en by (simp add: env0_def fresh_write_error_def)
  have f: "find_by_email [?lead] ''a@x.com'' 0 = Inr (Some 0)"
    by (simp add: email_key_def py_or_def dget_def lower_ex_lower)
  have ne: "?lead \<noteq> Map.empty" by simp
  from proposal_for_lead_written[OF ct wp we] g obtain path w' where
    r: "proposal_for_lead env0 Map.empty ?lead world0
         = (None, ?lead(''ProposalPath'' \<mapsto> PStr path, ''Status'' \<mapsto> PStr ''Proposal Sent''), w')"
       "ticks w' = 4"
    by auto
  show ?thesis
    using f ne r by (simp add: generate_and_save_proposal_def save_leads_def)
qed

section \<open>Import\<close>




















end
